theory Spec2Isabelle
  imports Main "HOL-Library.Word"
begin

section \<open>Memory model\<close>

text \<open>
  A C buffer of \<open>float\<close> is a list of cells; the cell type \<open>'a\<close> stays abstract, since the
  code only moves floats around and never computes with them. A pointer that may be \<open>NULL\<close> is
  an \<open>option\<close> of such a list. \<open>size_t\<close> is \<open>64 word\<close>, so its arithmetic wraps as on the
  64-bit targets of the library. An access outside the extent of a buffer, or through
  \<open>NULL\<close>, is undefined behaviour in C; the model stops with a \<open>fault\<close> there.
\<close>

datatype fault = NullDeref | OutOfBounds

definition fault_bind :: "fault + 'b \<Rightarrow> ('b \<Rightarrow> fault + 'c) \<Rightarrow> fault + 'c" where
  "fault_bind m k = (case m of Inl f \<Rightarrow> Inl f | Inr x \<Rightarrow> k x)"

definition deref :: "'b option \<Rightarrow> fault + 'b" where
  "deref p = (case p of None \<Rightarrow> Inl NullDeref | Some x \<Rightarrow> Inr x)"

definition sizeof_float :: "64 word" where
  "sizeof_float = 4"

text \<open>
  \<open>memcpy (dst + doff) (src + soff) nbytes\<close> on float buffers. The offsets count floats, the
  length counts bytes, as in the calls of the source.
\<close>

definition memcpy :: "'a list \<Rightarrow> nat \<Rightarrow> 'a list \<Rightarrow> nat \<Rightarrow> 64 word \<Rightarrow> fault + 'a list" where
  "memcpy dst doff src soff nbytes =
     (let n = unat nbytes div unat sizeof_float in
      if doff + n \<le> length dst \<and> soff + n \<le> length src
      then Inr (take doff dst @ take n (drop soff src) @ drop (doff + n) dst)
      else Inl OutOfBounds)"

section \<open>copyhelper.c\<close>

text \<open>
  \<^verbatim>\<open>for (size_t i = 0; i < count; i++) dst[i] = src[i * stride];\<close>
\<close>

function copy_strided_loop ::
  "'a list \<Rightarrow> 64 word \<Rightarrow> 64 word \<Rightarrow> 64 word \<Rightarrow> 'a list \<Rightarrow> fault + 'a list" where
  "copy_strided_loop src count stride i dst =
     (if i < count then
        (if unat i < length dst \<and> unat (i * stride) < length src
         then copy_strided_loop src count stride (i + 1) (dst[unat i := src ! unat (i * stride)])
         else Inl OutOfBounds)
      else Inr dst)"
  by pat_completeness auto
termination
proof (relation "measure (\<lambda>(src, count, stride, i, dst). unat count - unat i)")
  show "wf (measure (\<lambda>(src, count, stride, i, dst). unat count - unat i))" by simp
next
  fix src :: "'a list" and count stride i :: "64 word" and dst :: "'a list"
  assume lt: "i < count"
  have less: "unat i < unat count" using lt by (simp add: word_less_nat_alt)
  moreover have "unat count < 2 ^ LENGTH(64)" by (rule unsigned_less)
  ultimately have "unat i + unat (1::64 word) < 2 ^ LENGTH(64)" by simp
  then have "unat (i + 1) = unat i + unat (1::64 word)" by (simp only: unat_add_lem)
  then show "((src, count, stride, i + 1, dst[unat i := src ! unat (i * stride)]),
              (src, count, stride, i, dst))
        \<in> measure (\<lambda>(src, count, stride, i, dst). unat count - unat i)"
    using less by simp
qed

declare copy_strided_loop.simps [simp del]

definition copy_strided_to_contiguous ::
  "'a list \<Rightarrow> 'a list \<Rightarrow> 64 word \<Rightarrow> 64 word \<Rightarrow> fault + 'a list" where
  "copy_strided_to_contiguous src dst count stride = copy_strided_loop src count stride 0 dst"

text \<open>
  The row loop of \<open>copy_2d_output\<close>:
  \<^verbatim>\<open>for (size_t t = 0; t < time; t++)
      memcpy(dst + t * vocab, srcPtr + t * stride1, vocab * sizeof(float));\<close>
\<close>

function copy_rows_loop ::
  "'a list \<Rightarrow> 64 word \<Rightarrow> 64 word \<Rightarrow> 64 word \<Rightarrow> 64 word \<Rightarrow> 'a list \<Rightarrow> fault + 'a list" where
  "copy_rows_loop src time vocab stride1 t dst =
     (if t < time then
        (case memcpy dst (unat (t * vocab)) src (unat (t * stride1)) (vocab * sizeof_float) of
           Inl f \<Rightarrow> Inl f
         | Inr dst' \<Rightarrow> copy_rows_loop src time vocab stride1 (t + 1) dst')
      else Inr dst)"
  by pat_completeness auto
termination
proof (relation "measure (\<lambda>(src, time, vocab, stride1, t, dst). unat time - unat t)")
  show "wf (measure (\<lambda>(src, time, vocab, stride1, t, dst). unat time - unat t))" by simp
next
  fix src :: "'a list" and time vocab stride1 t :: "64 word" and dst x2 :: "'a list"
  assume lt: "t < time"
  have less: "unat t < unat time" using lt by (simp add: word_less_nat_alt)
  moreover have "unat time < 2 ^ LENGTH(64)" by (rule unsigned_less)
  ultimately have "unat t + unat (1::64 word) < 2 ^ LENGTH(64)" by simp
  then have "unat (t + 1) = unat t + unat (1::64 word)" by (simp only: unat_add_lem)
  then show "((src, time, vocab, stride1, t + 1, x2), (src, time, vocab, stride1, t, dst))
        \<in> measure (\<lambda>(src, time, vocab, stride1, t, dst). unat time - unat t)"
    using less by simp
qed

declare copy_rows_loop.simps [simp del]

definition copy_2d_output ::
  "'a list \<Rightarrow> 'a list \<Rightarrow> 64 word \<Rightarrow> 64 word \<Rightarrow> 64 word \<Rightarrow> fault + ('a list \<times> 64 word)" where
  "copy_2d_output src dst time vocab stride1 =
     (case (if stride1 = vocab
            then memcpy dst 0 src 0 (time * vocab * sizeof_float)
            else copy_rows_loop src time vocab stride1 0 dst) of
        Inl f \<Rightarrow> Inl f
      | Inr dst' \<Rightarrow> Inr (dst', time * vocab))"

section \<open>onnx_wrapper.c\<close>

subsection \<open>The runtime as the wrapper sees it\<close>

text \<open>
  ONNX Runtime is not part of the repository. Its function table \<open>g_ort\<close> is a record of
  functions, one field per entry the wrapper calls, and every theorem below holds for all
  such tables. A call that reports through an \<open>OrtStatus*\<close> and an out-parameter returns a
  sum here: \<open>Inl\<close> the status object of a failed call, \<open>Inr\<close> the object it produced.
  Objects of the runtime that the wrapper only passes on are handles.

  The source drops the \<open>OrtStatus*\<close> that \<open>GetTensorMutableData\<close> returns. That call
  can fail (on a value that is no tensor), so the table says, for each output value,
  which status it returns: \<open>None\<close> for success, otherwise a status object that the log
  records as created and that nothing releases. The other getters and the setters whose
  status the source drops (\<open>GetTensorTypeAndShape\<close>, \<open>GetDimensionsCount\<close>,
  \<open>GetDimensions\<close>, \<open>SessionGetInputCount\<close>, \<open>SetIntraOpNumThreads\<close>, ...) are total
  here; no statement below is about what they may leave behind.
\<close>

type_synonym handle = nat

datatype ONNXTensorElementDataType =
  ONNX_TENSOR_ELEMENT_DATA_TYPE_FLOAT | ONNX_TENSOR_ELEMENT_DATA_TYPE_INT64

datatype OrtStatus = OrtStatus (GetErrorMessage: "string option")

datatype 'a tensor_data = FloatData "'a list" | Int64Data "int list"

text \<open>An input \<open>OrtValue\<close> is the argument list of \<open>CreateTensorWithDataAsOrtValue\<close>.\<close>

record 'a InputTensor =
  p_data :: "'a tensor_data option"
  p_data_len :: "64 word"
  shape :: "int list"
  shape_len :: nat
  elem_type :: ONNXTensorElementDataType

text \<open>
  An output \<open>OrtValue\<close> is what the getters report of it: its dimensions
  (\<open>GetTensorTypeAndShape\<close>, \<open>GetDimensionsCount\<close>, \<open>GetDimensions\<close>) and the pointer
  that a call of \<open>GetTensorMutableData\<close> leaves in its out-parameter, read as \<open>float*\<close>
  (\<open>NULL\<close> where the call leaves the variable as it was initialised).
\<close>

record 'a OutputTensor =
  dims :: "int list"
  data :: "'a list option"

record 'a OrtApi =
  CreateEnv :: "OrtStatus + handle"
  CreateSessionOptions :: "OrtStatus + handle"
  AppendExecutionProvider_CoreML :: "handle \<Rightarrow> OrtStatus option"
  CreateSession :: "handle \<Rightarrow> string \<Rightarrow> handle \<Rightarrow> OrtStatus + handle"
  GetAllocatorWithDefaultOptions :: "OrtStatus + handle"
  SessionGetInputCount :: "handle \<Rightarrow> nat"
  SessionGetOutputCount :: "handle \<Rightarrow> nat"
  SessionGetInputName :: "handle \<Rightarrow> nat \<Rightarrow> handle \<Rightarrow> string option"
  SessionGetOutputName :: "handle \<Rightarrow> nat \<Rightarrow> handle \<Rightarrow> string option"
  CreateCpuMemoryInfo :: "OrtStatus + handle"
  CreateTensorWithDataAsOrtValue :: "handle \<Rightarrow> 'a InputTensor \<Rightarrow> OrtStatus option"
  GetTensorMutableData :: "'a OutputTensor \<Rightarrow> OrtStatus option"
  Run :: "handle option \<Rightarrow> string option list \<Rightarrow> 'a InputTensor list \<Rightarrow> string option list
          \<Rightarrow> OrtStatus + 'a OutputTensor option list"

text \<open>
  The C heap: \<open>malloc_ok k\<close> tells whether the \<open>k\<close>-th allocation of a call succeeds, and
  \<open>fresh i\<close> is the indeterminate content of cell \<open>i\<close> of a block that \<open>malloc\<close> returns.
\<close>

record 'a heap =
  malloc_ok :: "nat \<Rightarrow> bool"
  fresh :: "nat \<Rightarrow> 'a"

definition malloc :: "'a heap \<Rightarrow> nat \<Rightarrow> nat \<Rightarrow> 'a list option" where
  "malloc hp k n = (if malloc_ok hp k then Some (map (fresh hp) [0..<n]) else None)"

subsection \<open>Global state and sessions\<close>

record 'a globals =
  g_ort :: "'a OrtApi option"
  g_env :: "handle option"
  g_error_msg :: string

record OnnxSession =
  session :: "handle option"
  options :: "handle option"
  allocator :: "handle option"
  input_names :: "string option list option"
  output_names :: "string option list option"
  num_inputs :: nat
  num_outputs :: nat

text \<open>
  Every acquisition and release that a call performs is logged, in program order, so that
  claims about release order and leaks can be stated on the log.
\<close>

datatype resource =
    StatusObj | EnvObj | MemoryInfo | InputValue nat | OutputValue nat | CombinedState
  | TypeInfo | DimsArray | GetterStatus nat
  | SessionStruct | OptionsObj | SessionObj | InputNameArray | OutputNameArray
  | InputName nat | OutputName nat

datatype event =
    Created resource | Released resource
  | Malloc resource | Free resource
  | AllocatorFree resource
  | Printf "string option"

definition initial_globals :: "'a globals" where
  "initial_globals = \<lparr>g_ort = None, g_env = None, g_error_msg = []\<rparr>"

definition set_error :: "string \<Rightarrow> 'a globals \<Rightarrow> 'a globals" where
  "set_error msg g = g\<lparr>g_error_msg := take 255 msg\<rparr>"

definition set_ort_error ::
  "OrtStatus option \<Rightarrow> 'a globals \<times> event list \<Rightarrow> 'a globals \<times> event list" where
  "set_ort_error status w =
     (case (status, g_ort (fst w)) of
        (Some st, Some api) \<Rightarrow>
          (set_error (case GetErrorMessage st of Some msg \<Rightarrow> msg
                      | None \<Rightarrow> ''Unknown ONNX error'') (fst w),
           snd w @ [Released StatusObj])
      | _ \<Rightarrow> w)"

text \<open>\<open>GetApi\<close> is what \<open>OrtGetApiBase()->GetApi(ORT_API_VERSION)\<close> returns.\<close>

definition onnx_init :: "'a OrtApi option \<Rightarrow> 'a globals \<Rightarrow> int \<times> 'a globals \<times> event list" where
  "onnx_init GetApi g =
     (case g_ort g of
        Some _ \<Rightarrow> (0, g, [])
      | None \<Rightarrow>
          (case GetApi of
             None \<Rightarrow> (- 1, set_error ''Failed to get ONNX Runtime API'' g, [])
           | Some api \<Rightarrow>
               (case CreateEnv api of
                  Inl st \<Rightarrow>
                    (let w = set_ort_error (Some st) (g\<lparr>g_ort := Some api\<rparr>, [Created StatusObj])
                     in (- 1, (fst w)\<lparr>g_ort := None\<rparr>, snd w))
                | Inr env \<Rightarrow>
                    (0, g\<lparr>g_ort := Some api, g_env := Some env\<rparr>, [Created EnvObj]))))"

definition onnx_cleanup :: "'a globals \<Rightarrow> 'a globals \<times> event list" where
  "onnx_cleanup g =
     (g\<lparr>g_env := None, g_ort := None\<rparr>,
      (case (g_env g, g_ort g) of (Some _, Some _) \<Rightarrow> [Released EnvObj] | _ \<Rightarrow> []))"

text \<open>
  \<open>calloc\<close> of a name array and the loop that asks the runtime for each name. The source
  does not test the result of this \<open>calloc\<close>: with a \<open>NULL\<close> array the runtime is handed the
  address of slot \<open>i\<close> of nothing.
\<close>

definition get_names ::
  "'a heap \<Rightarrow> nat \<Rightarrow> nat \<Rightarrow> (nat \<Rightarrow> string option) \<Rightarrow> fault + string option list option" where
  "get_names hp k n name_of =
     (if malloc_ok hp k then Inr (Some (map name_of [0..<n]))
      else if n = 0 then Inr None else Inl NullDeref)"

definition created_names :: "(nat \<Rightarrow> resource) \<Rightarrow> string option list option \<Rightarrow> event list" where
  "created_names mk names =
     (case names of
        None \<Rightarrow> []
      | Some ns \<Rightarrow>
          concat (map (\<lambda>i. case ns ! i of Some _ \<Rightarrow> [Created (mk i)] | None \<Rightarrow> [])
                      [0..<length ns]))"

text \<open>The tail of \<open>onnx_create_session\<close>, from \<open>SessionGetInputCount\<close> on.\<close>

definition introspect_session ::
  "'a heap \<Rightarrow> 'a OrtApi \<Rightarrow> 'a globals \<Rightarrow> event list \<Rightarrow> handle \<Rightarrow> handle \<Rightarrow> handle
   \<Rightarrow> fault + (OnnxSession option \<times> 'a globals \<times> event list)" where
  "introspect_session hp api g tr sess opts alloc =
     (let n_in = SessionGetInputCount api sess;
          n_out = SessionGetOutputCount api sess
      in fault_bind (get_names hp 1 n_in (\<lambda>i. SessionGetInputName api sess i alloc)) (\<lambda>ins.
         fault_bind (get_names hp 2 n_out (\<lambda>i. SessionGetOutputName api sess i alloc)) (\<lambda>outs.
         Inr (Some \<lparr>session = Some sess, options = Some opts, allocator = Some alloc,
                    input_names = ins, output_names = outs,
                    num_inputs = n_in, num_outputs = n_out\<rparr>,
              g,
              tr @ (case ins of Some _ \<Rightarrow> [Malloc InputNameArray] | None \<Rightarrow> [])
                 @ (case outs of Some _ \<Rightarrow> [Malloc OutputNameArray] | None \<Rightarrow> [])
                 @ created_names InputName ins
                 @ created_names OutputName outs))))"

text \<open>
  The calls that configure the options object (\<open>SetSessionGraphOptimizationLevel\<close>,
  \<open>SetIntraOpNumThreads\<close>, \<open>SetInterOpNumThreads\<close>) act inside the runtime only and leave no
  mark on the wrapper's state.
\<close>

definition onnx_create_session ::
  "'a heap \<Rightarrow> 'a globals \<Rightarrow> string \<Rightarrow> fault + (OnnxSession option \<times> 'a globals \<times> event list)" where
  "onnx_create_session hp g model_path =
     (case (g_ort g, g_env g) of
        (Some api, Some env) \<Rightarrow>
          (if \<not> malloc_ok hp 0 then Inr (None, set_error ''Memory allocation failed'' g, [])
           else
             (case CreateSessionOptions api of
                Inl st \<Rightarrow>
                  (let w = set_ort_error (Some st) (g, [Malloc SessionStruct, Created StatusObj])
                   in Inr (None, fst w, snd w @ [Free SessionStruct]))
              | Inr opts \<Rightarrow>
                  (let tr1 = [Malloc SessionStruct, Created OptionsObj] @
                         (case AppendExecutionProvider_CoreML api opts of
                            Some st \<Rightarrow>
                              [Created StatusObj, Printf (GetErrorMessage st), Released StatusObj]
                          | None \<Rightarrow> [])
                   in (case CreateSession api env model_path opts of
                         Inl st \<Rightarrow>
                           (let w = set_ort_error (Some st) (g, tr1 @ [Created StatusObj])
                            in Inr (None, fst w,
                                    snd w @ [Released OptionsObj, Free SessionStruct]))
                       | Inr sess \<Rightarrow>
                           (case GetAllocatorWithDefaultOptions api of
                              Inl st \<Rightarrow>
                                (let w = set_ort_error (Some st)
                                           (g, tr1 @ [Created SessionObj, Created StatusObj])
                                 in Inr (None, fst w,
                                         snd w @ [Released SessionObj, Released OptionsObj,
                                                  Free SessionStruct]))
                            | Inr alloc \<Rightarrow>
                                introspect_session hp api g (tr1 @ [Created SessionObj])
                                  sess opts alloc)))))
      | _ \<Rightarrow> Inr (None, set_error ''ONNX Runtime not initialized'' g, []))"

text \<open>
  \<^verbatim>\<open>for (size_t i = 0; i < session->num_inputs; i++)
      if (session->input_names[i] && session->allocator)
          session->allocator->Free(session->allocator, session->input_names[i]);\<close>
  run over the indices \<open>[0..<num_inputs]\<close>.
\<close>

primrec free_names_loop ::
  "handle option \<Rightarrow> (nat \<Rightarrow> resource) \<Rightarrow> string option list \<Rightarrow> nat list \<Rightarrow> event list
   \<Rightarrow> fault + event list" where
  "free_names_loop alloc mk names [] tr = Inr tr"
| "free_names_loop alloc mk names (i # rest) tr =
     (if i < length names
      then free_names_loop alloc mk names rest
             (case (names ! i, alloc) of
                (Some _, Some _) \<Rightarrow> tr @ [AllocatorFree (mk i)]
              | _ \<Rightarrow> tr)
      else Inl OutOfBounds)"

definition free_names ::
  "handle option \<Rightarrow> (nat \<Rightarrow> resource) \<Rightarrow> resource \<Rightarrow> string option list option \<Rightarrow> nat
   \<Rightarrow> fault + event list" where
  "free_names alloc mk arr names n =
     (case names of
        None \<Rightarrow> Inr []
      | Some ns \<Rightarrow>
          fault_bind (free_names_loop alloc mk ns [0..<n] []) (\<lambda>tr. Inr (tr @ [Free arr])))"

definition onnx_destroy_session :: "'a globals \<Rightarrow> OnnxSession option \<Rightarrow> fault + event list" where
  "onnx_destroy_session g sp =
     (case sp of
        None \<Rightarrow> Inr []
      | Some s \<Rightarrow>
          fault_bind (free_names (allocator s) InputName InputNameArray (input_names s) (num_inputs s))
            (\<lambda>tr_in.
          fault_bind (free_names (allocator s) OutputName OutputNameArray (output_names s) (num_outputs s))
            (\<lambda>tr_out.
          Inr (tr_in @ tr_out
               @ (case (session s, g_ort g) of (Some _, Some _) \<Rightarrow> [Released SessionObj] | _ \<Rightarrow> [])
               @ (case (options s, g_ort g) of (Some _, Some _) \<Rightarrow> [Released OptionsObj] | _ \<Rightarrow> [])
               @ [Free SessionStruct]))))"

subsection \<open>onnx_run_vad\<close>

record 'a vad_result =
  vad_ret :: int
  vad_globals :: "'a globals"
  vad_prob_out :: "'a option"
  vad_h_out :: "'a list option"
  vad_c_out :: "'a list option"
  vad_trace :: "event list"

definition vad_audio_tensor :: "'a list option \<Rightarrow> int \<Rightarrow> 'a InputTensor" where
  "vad_audio_tensor audio audio_len =
     \<lparr>p_data = map_option FloatData audio,
      p_data_len = word_of_int audio_len * sizeof_float,
      shape = [1, audio_len], shape_len = 2,
      elem_type = ONNX_TENSOR_ELEMENT_DATA_TYPE_FLOAT\<rparr>"

text \<open>
  \<^verbatim>\<open>float* combined_state = (float*)malloc(256 * sizeof(float));
  memcpy(combined_state, h_in, 128 * sizeof(float));
  memcpy(combined_state + 128, c_in, 128 * sizeof(float));\<close>
\<close>

definition combine_state :: "'a heap \<Rightarrow> 'a list option \<Rightarrow> 'a list option \<Rightarrow> fault + 'a list" where
  "combine_state hp h_in c_in =
     fault_bind (deref (malloc hp 0 256)) (\<lambda>block.
     fault_bind (deref h_in) (\<lambda>h.
     fault_bind (memcpy block 0 h 0 (128 * sizeof_float)) (\<lambda>block.
     fault_bind (deref c_in) (\<lambda>c.
     memcpy block 128 c 0 (128 * sizeof_float)))))"

definition vad_state_tensor :: "'a list \<Rightarrow> 'a InputTensor" where
  "vad_state_tensor combined_state =
     \<lparr>p_data = Some (FloatData combined_state),
      p_data_len = 256 * sizeof_float,
      shape = [2, 1, 128], shape_len = 3,
      elem_type = ONNX_TENSOR_ELEMENT_DATA_TYPE_FLOAT\<rparr>"

definition vad_sr_tensor :: "'a InputTensor" where
  "vad_sr_tensor =
     \<lparr>p_data = Some (Int64Data [16000]),
      p_data_len = 8,
      shape = [], shape_len = 0,
      elem_type = ONNX_TENSOR_ELEMENT_DATA_TYPE_INT64\<rparr>"

text \<open>The code after the label \<open>cleanup\<close>, and the \<open>return status ? -1 : 0\<close>.\<close>

definition vad_cleanup ::
  "'a InputTensor option list \<Rightarrow> handle option \<Rightarrow> bool \<Rightarrow> 'a globals \<times> event list
   \<Rightarrow> 'a option \<Rightarrow> 'a list option \<Rightarrow> 'a list option \<Rightarrow> 'a vad_result" where
  "vad_cleanup input_tensors memory_info status w prob h c =
     \<lparr>vad_ret = (if status then - 1 else 0),
      vad_globals = fst w,
      vad_prob_out = prob, vad_h_out = h, vad_c_out = c,
      vad_trace = snd w
        @ concat (map (\<lambda>i. case input_tensors ! i of
                              Some _ \<Rightarrow> [Released (InputValue i)] | None \<Rightarrow> []) [0..<3])
        @ (case memory_info of Some _ \<Rightarrow> [Released MemoryInfo] | None \<Rightarrow> [])\<rparr>"

text \<open>
  The log entry of one call \<open>g_ort->GetTensorMutableData(output_tensors[i], ...)\<close> whose
  result the source drops: the status object, when the call returns one.
\<close>

definition dropped_status :: "'a OrtApi \<Rightarrow> nat \<Rightarrow> 'a OutputTensor \<Rightarrow> event list" where
  "dropped_status api i out =
     (case GetTensorMutableData api out of
        Some _ \<Rightarrow> [Created (GetterStatus i)]
      | None \<Rightarrow> [])"

text \<open>
  The block under \<open>// Extract outputs\<close>. \<open>GetTensorMutableData\<close> is called on both output
  values without a test for \<open>NULL\<close>, and the status of each call is dropped. The result
  is the three outputs and the log of the block.
\<close>

definition vad_extract ::
  "'a OrtApi \<Rightarrow> 'a OutputTensor option list \<Rightarrow> 'a option \<Rightarrow> 'a list option \<Rightarrow> 'a list option
   \<Rightarrow> fault + ('a option \<times> 'a list option \<times> 'a list option \<times> event list)" where
  "vad_extract api output_tensors prob_out h_out c_out =
     fault_bind (deref (output_tensors ! 0)) (\<lambda>out0.
     fault_bind (case (data out0, prob_out) of
                   (Some prob_data, Some _) \<Rightarrow>
                     (case prob_data of [] \<Rightarrow> Inl OutOfBounds | x # _ \<Rightarrow> Inr (Some x))
                 | _ \<Rightarrow> Inr prob_out) (\<lambda>prob.
     fault_bind (deref (output_tensors ! 1)) (\<lambda>out1.
     (let tr = dropped_status api 0 out0 @ dropped_status api 1 out1
      in case data out1 of
        None \<Rightarrow> Inr (prob, h_out, c_out, tr)
      | Some state_data \<Rightarrow>
          fault_bind (case h_out of
                        None \<Rightarrow> Inr None
                      | Some hb \<Rightarrow>
                          fault_bind (memcpy hb 0 state_data 0 (128 * sizeof_float))
                            (\<lambda>b. Inr (Some b))) (\<lambda>h.
          fault_bind (case c_out of
                        None \<Rightarrow> Inr None
                      | Some cb \<Rightarrow>
                          fault_bind (memcpy cb 0 state_data 128 (128 * sizeof_float))
                            (\<lambda>b. Inr (Some b))) (\<lambda>c.
          Inr (prob, h, c, tr)))))))"

definition output_events ::
  "(resource \<Rightarrow> event) \<Rightarrow> 'a OutputTensor option list \<Rightarrow> event list" where
  "output_events ev output_tensors =
     concat (map (\<lambda>i. case output_tensors ! i of
                         Some _ \<Rightarrow> [ev (OutputValue i)] | None \<Rightarrow> []) [0..<2])"

definition vad_body ::
  "'a heap \<Rightarrow> 'a OrtApi \<Rightarrow> 'a globals \<Rightarrow> OnnxSession \<Rightarrow> handle \<Rightarrow> 'a list option \<Rightarrow> int
   \<Rightarrow> 'a list option \<Rightarrow> 'a list option \<Rightarrow> 'a option \<Rightarrow> 'a list option \<Rightarrow> 'a list option
   \<Rightarrow> fault + 'a vad_result" where
  "vad_body hp api g s memory_info audio audio_len h_in c_in prob_out h_out c_out =
     (let tr0 = [Created MemoryInfo];
          audio_t = vad_audio_tensor audio audio_len
      in case CreateTensorWithDataAsOrtValue api memory_info audio_t of
           Some st \<Rightarrow>
             Inr (vad_cleanup [None, None, None] (Some memory_info) True
                    (set_ort_error (Some st) (g, tr0 @ [Created StatusObj]))
                    prob_out h_out c_out)
         | None \<Rightarrow>
             fault_bind (combine_state hp h_in c_in) (\<lambda>combined_state.
               (let tr1 = tr0 @ [Created (InputValue 0), Malloc CombinedState];
                    state_t = vad_state_tensor combined_state
                in case CreateTensorWithDataAsOrtValue api memory_info state_t of
                     Some st \<Rightarrow>
                       Inr (vad_cleanup [Some audio_t, None, None] (Some memory_info) True
                              (set_ort_error (Some st)
                                 (g, tr1 @ [Created StatusObj, Free CombinedState]))
                              prob_out h_out c_out)
                   | None \<Rightarrow>
                       (let tr2 = tr1 @ [Created (InputValue 1)]
                        in case CreateTensorWithDataAsOrtValue api memory_info vad_sr_tensor of
                             Some st \<Rightarrow>
                               Inr (vad_cleanup [Some audio_t, Some state_t, None]
                                      (Some memory_info) True
                                      (set_ort_error (Some st)
                                         (g, tr2 @ [Created StatusObj, Free CombinedState]))
                                      prob_out h_out c_out)
                           | None \<Rightarrow>
                               (let tr3 = tr2 @ [Created (InputValue 2)];
                                    input_tensors = [Some audio_t, Some state_t, Some vad_sr_tensor]
                                in case Run api (session s)
                                          [Some ''input'', Some ''state'', Some ''sr'']
                                          [audio_t, state_t, vad_sr_tensor]
                                          [Some ''output'', Some ''stateN''] of
                                     Inl st \<Rightarrow>
                                       Inr (vad_cleanup input_tensors (Some memory_info) True
                                              (set_ort_error (Some st)
                                                 (g, tr3 @ [Created StatusObj, Free CombinedState]))
                                              prob_out h_out c_out)
                                   | Inr outs \<Rightarrow>
                                       (let output_tensors = take 2 (outs @ [None, None])
                                        in fault_bind
                                             (vad_extract api output_tensors prob_out h_out c_out)
                                             (\<lambda>(prob, h, c, tr).
                                               Inr (vad_cleanup input_tensors (Some memory_info)
                                                      False
                                                      (g, tr3
                                                          @ output_events Created output_tensors
                                                          @ tr
                                                          @ output_events Released output_tensors
                                                          @ [Free CombinedState])
                                                      prob h c))))))))"

definition onnx_run_vad ::
  "'a heap \<Rightarrow> 'a globals \<Rightarrow> OnnxSession option \<Rightarrow> 'a list option \<Rightarrow> int
   \<Rightarrow> 'a list option \<Rightarrow> 'a list option \<Rightarrow> 'a option \<Rightarrow> 'a list option \<Rightarrow> 'a list option
   \<Rightarrow> fault + 'a vad_result" where
  "onnx_run_vad hp g sp audio audio_len h_in c_in prob_out h_out c_out =
     (case (sp, g_ort g) of
        (Some s, Some api) \<Rightarrow>
          (case CreateCpuMemoryInfo api of
             Inl st \<Rightarrow>
               (let w = set_ort_error (Some st) (g, [Created StatusObj])
                in Inr \<lparr>vad_ret = - 1, vad_globals = fst w,
                        vad_prob_out = prob_out, vad_h_out = h_out, vad_c_out = c_out,
                        vad_trace = snd w\<rparr>)
           | Inr memory_info \<Rightarrow>
               vad_body hp api g s memory_info audio audio_len h_in c_in prob_out h_out c_out)
      | _ \<Rightarrow>
          Inr \<lparr>vad_ret = - 1, vad_globals = set_error ''Invalid session'' g,
               vad_prob_out = prob_out, vad_h_out = h_out, vad_c_out = c_out,
               vad_trace = []\<rparr>)"

subsection \<open>onnx_run_asr and onnx_run_speaker\<close>

record 'a run_result =
  run_ret :: int
  run_globals :: "'a globals"
  run_out :: "'a list option"
  run_trace :: "event list"

text \<open>\<open>session->input_names[0]\<close> and \<open>session->output_names[0]\<close>.\<close>

definition first_name :: "string option list option \<Rightarrow> fault + string option" where
  "first_name names =
     (case names of
        None \<Rightarrow> Inl NullDeref
      | Some [] \<Rightarrow> Inl OutOfBounds
      | Some (n # _) \<Rightarrow> Inr n)"

text \<open>The one slot \<open>output_tensor\<close>, \<open>NULL\<close> before the call of \<open>Run\<close>.\<close>

definition first_output :: "'a OutputTensor option list \<Rightarrow> 'a OutputTensor option" where
  "first_output outs = (case outs of [] \<Rightarrow> None | out # _ \<Rightarrow> out)"

text \<open>
  \<^verbatim>\<open>size_t output_size = 1;
  for (size_t i = 0; i < dim_count; i++) output_size *= dims[i];\<close>
  Each \<open>int64_t\<close> dimension is converted to \<open>size_t\<close> by the multiplication.
\<close>

primrec output_size_loop :: "int list \<Rightarrow> 64 word \<Rightarrow> 64 word" where
  "output_size_loop [] output_size = output_size"
| "output_size_loop (d # ds) output_size = output_size_loop ds (output_size * word_of_int d)"

text \<open>
  The cast \<open>(int)output_size\<close>: the low 32 bits, read as two's complement (what the
  compilers of the library's targets do for a value that does not fit).
\<close>

definition int_of_size :: "64 word \<Rightarrow> int" where
  "int_of_size n = sint (ucast n :: 32 word)"

text \<open>The body of \<open>if (!status && output_tensor)\<close> in \<open>onnx_run_asr\<close>, without the final release.\<close>

definition asr_extract ::
  "'a heap \<Rightarrow> 'a OrtApi \<Rightarrow> 'a globals \<Rightarrow> 'a OutputTensor \<Rightarrow> 'a list option \<Rightarrow> int
   \<Rightarrow> fault + (int \<times> 'a globals \<times> 'a list option \<times> event list)" where
  "asr_extract hp api g out logits_out max_output_size =
     (let dim_count = length (dims out)
      in if dim_count \<noteq> 0 \<and> \<not> malloc_ok hp 0 then Inl NullDeref
         else
           (let output_size = output_size_loop (dims out) 1;
                tr = [Created TypeInfo]
                       @ (if malloc_ok hp 0 then [Malloc DimsArray, Free DimsArray] else [])
                       @ [Released TypeInfo]
            in if int_of_size output_size \<le> max_output_size
               then fault_bind
                      (case (data out, logits_out) of
                         (Some output_data, Some buf) \<Rightarrow>
                           fault_bind (memcpy buf 0 output_data 0 (output_size * sizeof_float))
                             (\<lambda>b. Inr (Some b))
                       | _ \<Rightarrow> Inr logits_out)
                      (\<lambda>logits. Inr (int_of_size output_size, g, logits,
                                      tr @ dropped_status api 0 out))
               else Inr (- 1, set_error ''Output buffer too small'' g, logits_out, tr)))"

text \<open>
  The conversion of an \<open>int\<close> product to \<open>size_t\<close>, as in
  \<open>frames * features * sizeof(float)\<close>: the two \<open>int\<close>s are multiplied in 32 bits (the
  product wraps as compiled; its overflow is undefined in C), the result is sign-extended
  to 64 bits.
\<close>

definition int_product_to_size :: "int \<Rightarrow> int \<Rightarrow> 64 word" where
  "int_product_to_size a b = scast (word_of_int a * word_of_int b :: 32 word)"

text \<open>
  The input tensor \<open>(1, frames, features)\<close>, of byte length
  \<open>frames * features * sizeof(float)\<close>.
\<close>

definition asr_input_tensor :: "'a list option \<Rightarrow> int \<Rightarrow> int \<Rightarrow> 'a InputTensor" where
  "asr_input_tensor mel_lfr frames features =
     \<lparr>p_data = map_option FloatData mel_lfr,
      p_data_len = int_product_to_size frames features * sizeof_float,
      shape = [1, frames, features], shape_len = 3,
      elem_type = ONNX_TENSOR_ELEMENT_DATA_TYPE_FLOAT\<rparr>"

definition onnx_run_asr ::
  "'a heap \<Rightarrow> 'a globals \<Rightarrow> OnnxSession option \<Rightarrow> 'a list option \<Rightarrow> int \<Rightarrow> int
   \<Rightarrow> 'a list option \<Rightarrow> int \<Rightarrow> fault + 'a run_result" where
  "onnx_run_asr hp g sp mel_lfr frames features logits_out max_output_size =
     (case (sp, g_ort g) of
        (Some s, Some api) \<Rightarrow>
          (case CreateCpuMemoryInfo api of
             Inl st \<Rightarrow>
               (let w = set_ort_error (Some st) (g, [Created StatusObj])
                in Inr \<lparr>run_ret = - 1, run_globals = fst w, run_out = logits_out,
                        run_trace = snd w\<rparr>)
           | Inr memory_info \<Rightarrow>
               (let input_tensor = asr_input_tensor mel_lfr frames features
                in case CreateTensorWithDataAsOrtValue api memory_info input_tensor of
                     Some st \<Rightarrow>
                       (let w = set_ort_error (Some st) (g, [Created MemoryInfo, Created StatusObj])
                        in Inr \<lparr>run_ret = - 1, run_globals = fst w, run_out = logits_out,
                                run_trace = snd w @ [Released MemoryInfo]\<rparr>)
                   | None \<Rightarrow>
                       fault_bind (first_name (input_names s)) (\<lambda>iname.
                       fault_bind (first_name (output_names s)) (\<lambda>oname.
                       (let tr = [Created MemoryInfo, Created (InputValue 0)]
                        in fault_bind
                             (case Run api (session s) [iname] [input_tensor] [oname] of
                                Inl st \<Rightarrow>
                                  (let w = set_ort_error (Some st) (g, tr @ [Created StatusObj])
                                   in Inr (- 1, fst w, logits_out, snd w))
                              | Inr outs \<Rightarrow>
                                  (case first_output outs of
                                     None \<Rightarrow> Inr (- 1, g, logits_out, tr)
                                   | Some out \<Rightarrow>
                                       fault_bind
                                         (asr_extract hp api g out logits_out max_output_size)
                                         (\<lambda>(result, g', logits, tr').
                                           Inr (result, g', logits,
                                                tr @ [Created (OutputValue 0)] @ tr'
                                                   @ [Released (OutputValue 0)]))))
                             (\<lambda>(result, g', logits, tr').
                               Inr \<lparr>run_ret = result, run_globals = g', run_out = logits,
                                    run_trace = tr' @ [Released (InputValue 0),
                                                       Released MemoryInfo]\<rparr>))))))
      | _ \<Rightarrow>
          Inr \<lparr>run_ret = - 1, run_globals = set_error ''Invalid session'' g,
               run_out = logits_out, run_trace = []\<rparr>)"

definition speaker_input_tensor :: "'a list option \<Rightarrow> int \<Rightarrow> 'a InputTensor" where
  "speaker_input_tensor fbank frames =
     \<lparr>p_data = map_option FloatData fbank,
      p_data_len = int_product_to_size frames 24 * sizeof_float,
      shape = [1, frames, 24], shape_len = 3,
      elem_type = ONNX_TENSOR_ELEMENT_DATA_TYPE_FLOAT\<rparr>"

text \<open>
  The body of \<open>if (!status && output_tensor)\<close> in \<open>onnx_run_speaker\<close>, without the
  release: what is copied and what is returned. The status that its call of
  \<open>GetTensorMutableData\<close> returns is logged where \<open>onnx_run_speaker\<close> uses this block.
\<close>

definition speaker_extract ::
  "'a OutputTensor \<Rightarrow> 'a list option \<Rightarrow> fault + (int \<times> 'a list option)" where
  "speaker_extract out embedding_out =
     (case (data out, embedding_out) of
        (Some output_data, Some buf) \<Rightarrow>
          fault_bind (memcpy buf 0 output_data 0 (512 * sizeof_float)) (\<lambda>b. Inr (0, Some b))
      | _ \<Rightarrow> Inr (- 1, embedding_out))"

definition onnx_run_speaker ::
  "'a globals \<Rightarrow> OnnxSession option \<Rightarrow> 'a list option \<Rightarrow> int \<Rightarrow> 'a list option
   \<Rightarrow> fault + 'a run_result" where
  "onnx_run_speaker g sp fbank frames embedding_out =
     (case (sp, g_ort g) of
        (Some s, Some api) \<Rightarrow>
          (case CreateCpuMemoryInfo api of
             Inl st \<Rightarrow>
               (let w = set_ort_error (Some st) (g, [Created StatusObj])
                in Inr \<lparr>run_ret = - 1, run_globals = fst w, run_out = embedding_out,
                        run_trace = snd w\<rparr>)
           | Inr memory_info \<Rightarrow>
               (let input_tensor = speaker_input_tensor fbank frames
                in case CreateTensorWithDataAsOrtValue api memory_info input_tensor of
                     Some st \<Rightarrow>
                       (let w = set_ort_error (Some st) (g, [Created MemoryInfo, Created StatusObj])
                        in Inr \<lparr>run_ret = - 1, run_globals = fst w, run_out = embedding_out,
                                run_trace = snd w @ [Released MemoryInfo]\<rparr>)
                   | None \<Rightarrow>
                       fault_bind (first_name (input_names s)) (\<lambda>iname.
                       fault_bind (first_name (output_names s)) (\<lambda>oname.
                       (let tr = [Created MemoryInfo, Created (InputValue 0)]
                        in fault_bind
                             (case Run api (session s) [iname] [input_tensor] [oname] of
                                Inl st \<Rightarrow>
                                  (let w = set_ort_error (Some st) (g, tr @ [Created StatusObj])
                                   in Inr (- 1, fst w, embedding_out, snd w))
                              | Inr outs \<Rightarrow>
                                  (case first_output outs of
                                     None \<Rightarrow> Inr (- 1, g, embedding_out, tr)
                                   | Some out \<Rightarrow>
                                       fault_bind (speaker_extract out embedding_out)
                                         (\<lambda>(result, embedding).
                                           Inr (result, g, embedding,
                                                tr @ [Created (OutputValue 0)]
                                                   @ dropped_status api 0 out
                                                   @ [Released (OutputValue 0)]))))
                             (\<lambda>(result, g', embedding, tr').
                               Inr \<lparr>run_ret = result, run_globals = g', run_out = embedding,
                                    run_trace = tr' @ [Released (InputValue 0),
                                                       Released MemoryInfo]\<rparr>))))))
      | _ \<Rightarrow>
          Inr \<lparr>run_ret = - 1, run_globals = set_error ''Invalid session'' g,
               run_out = embedding_out, run_trace = []\<rparr>)"

subsection \<open>Reading a log\<close>

text \<open>
  \<open>track\<close> replays a log on the list of live resources: acquiring a live resource and
  releasing a dead one are errors (\<open>None\<close>). A call leaks nothing when its log replays
  from the empty list to the empty list.
\<close>

fun track :: "event \<Rightarrow> resource list \<Rightarrow> resource list option" where
  "track (Created r) live = (if r \<in> set live then None else Some (r # live))"
| "track (Malloc r) live = (if r \<in> set live then None else Some (r # live))"
| "track (Released r) live = (if r \<in> set live then Some (removeAll r live) else None)"
| "track (Free r) live = (if r \<in> set live then Some (removeAll r live) else None)"
| "track (AllocatorFree r) live = (if r \<in> set live then Some (removeAll r live) else None)"
| "track (Printf _) live = Some live"

fun track_all :: "event list \<Rightarrow> resource list \<Rightarrow> resource list option" where
  "track_all [] live = Some live"
| "track_all (e # es) live =
     (case track e live of None \<Rightarrow> None | Some live' \<Rightarrow> track_all es live')"

definition balanced :: "event list \<Rightarrow> bool" where
  "balanced tr = (track_all tr [] = Some [])"

text \<open>\<open>precedes a b tr\<close>: the first \<open>a\<close> of the log is followed, later, by a \<open>b\<close>.\<close>

fun precedes :: "event \<Rightarrow> event \<Rightarrow> event list \<Rightarrow> bool" where
  "precedes a b [] = False"
| "precedes a b (e # es) = (if e = a then b \<in> set es else precedes a b es)"

text \<open>
  The log of a call of \<open>onnx_run_vad\<close> in which every creation and the graph execution
  succeed, with the two given output values.
\<close>

definition vad_success_trace :: "'a OrtApi \<Rightarrow> 'a OutputTensor \<Rightarrow> 'a OutputTensor \<Rightarrow> event list" where
  "vad_success_trace api out0 out1 =
     [Created MemoryInfo, Created (InputValue 0), Malloc CombinedState,
      Created (InputValue 1), Created (InputValue 2),
      Created (OutputValue 0), Created (OutputValue 1)]
     @ dropped_status api 0 out0 @ dropped_status api 1 out1
     @ [Released (OutputValue 0), Released (OutputValue 1),
        Free CombinedState,
        Released (InputValue 0), Released (InputValue 1), Released (InputValue 2),
        Released MemoryInfo]"

text \<open>A status object that \<open>GetTensorMutableData\<close> returned and the source dropped.\<close>

definition getter_status :: "resource \<Rightarrow> bool" where
  "getter_status x = (case x of GetterStatus _ \<Rightarrow> True | _ \<Rightarrow> False)"

subsection \<open>A sample runtime\<close>

text \<open>
  Concrete runtimes for the closed instances of the theorems: every call succeeds, except
  that tensor creation and graph execution behave as the two parameters say.
  \<open>getter_refusing\<close> turns a runtime into one whose \<open>GetTensorMutableData\<close> fails on
  every value.
\<close>

definition sample_api ::
  "(handle \<Rightarrow> 'a InputTensor \<Rightarrow> OrtStatus option)
   \<Rightarrow> (handle option \<Rightarrow> string option list \<Rightarrow> 'a InputTensor list \<Rightarrow> string option list
        \<Rightarrow> OrtStatus + 'a OutputTensor option list)
   \<Rightarrow> 'a OrtApi" where
  "sample_api create run =
     \<lparr>CreateEnv = Inr 1,
      CreateSessionOptions = Inr 2,
      AppendExecutionProvider_CoreML = (\<lambda>_. None),
      CreateSession = (\<lambda>_ _ _. Inr 3),
      GetAllocatorWithDefaultOptions = Inr 4,
      SessionGetInputCount = (\<lambda>_. 1),
      SessionGetOutputCount = (\<lambda>_. 1),
      SessionGetInputName = (\<lambda>_ _ _. Some ''in''),
      SessionGetOutputName = (\<lambda>_ _ _. Some ''out''),
      CreateCpuMemoryInfo = Inr 5,
      CreateTensorWithDataAsOrtValue = create,
      GetTensorMutableData = (\<lambda>_. None),
      Run = run\<rparr>"

definition getter_refusing :: "'a OrtApi \<Rightarrow> 'a OrtApi" where
  "getter_refusing api =
     api\<lparr>GetTensorMutableData := (\<lambda>_. Some (OrtStatus (Some ''not a tensor'')))\<rparr>"

text \<open>A graph with two outputs that are no tensors: no data pointer, no dimensions.\<close>

definition opaque_run ::
  "handle option \<Rightarrow> string option list \<Rightarrow> 'a InputTensor list \<Rightarrow> string option list
   \<Rightarrow> OrtStatus + 'a OutputTensor option list" where
  "opaque_run sess in_names inputs out_names =
     Inr [Some \<lparr>dims = [], data = None\<rparr>, Some \<lparr>dims = [], data = None\<rparr>]"

definition sample_globals :: "'a OrtApi \<Rightarrow> 'a globals" where
  "sample_globals api = \<lparr>g_ort = Some api, g_env = Some 1, g_error_msg = []\<rparr>"

definition sample_session :: OnnxSession where
  "sample_session =
     \<lparr>session = Some 3, options = Some 2, allocator = Some 4,
      input_names = Some [Some ''in''], output_names = Some [Some ''out''],
      num_inputs = 1, num_outputs = 1\<rparr>"

definition sample_heap :: "nat heap" where
  "sample_heap = \<lparr>malloc_ok = (\<lambda>_. True), fresh = (\<lambda>_. 0)\<rparr>"

definition create_ok :: "handle \<Rightarrow> 'a InputTensor \<Rightarrow> OrtStatus option" where
  "create_ok memory_info t = None"

text \<open>Tensor creation that refuses exactly the tensors of the given shape.\<close>

definition create_refusing :: "int list \<Rightarrow> handle \<Rightarrow> 'a InputTensor \<Rightarrow> OrtStatus option" where
  "create_refusing sh memory_info t =
     (if shape t = sh then Some (OrtStatus (Some ''tensor refused'')) else None)"

text \<open>A graph that hands the state tensor back unchanged, with probability cell \<open>p\<close>.\<close>

definition echo_run ::
  "'a \<Rightarrow> handle option \<Rightarrow> string option list \<Rightarrow> 'a InputTensor list \<Rightarrow> string option list
   \<Rightarrow> OrtStatus + 'a OutputTensor option list" where
  "echo_run p sess in_names inputs out_names =
     Inr [Some \<lparr>dims = [1, 1], data = Some [p]\<rparr>,
          Some \<lparr>dims = shape (inputs ! 1),
                data = (case p_data (inputs ! 1) of
                          Some (FloatData xs) \<Rightarrow> Some xs | _ \<Rightarrow> None)\<rparr>]"

text \<open>A graph whose execution fails, and one that yields a single given output.\<close>

definition failing_run ::
  "handle option \<Rightarrow> string option list \<Rightarrow> 'a InputTensor list \<Rightarrow> string option list
   \<Rightarrow> OrtStatus + 'a OutputTensor option list" where
  "failing_run sess in_names inputs out_names = Inl (OrtStatus (Some ''run failed''))"

definition const_run ::
  "'a OutputTensor \<Rightarrow> handle option \<Rightarrow> string option list \<Rightarrow> 'a InputTensor list
   \<Rightarrow> string option list \<Rightarrow> OrtStatus + 'a OutputTensor option list" where
  "const_run out sess in_names inputs out_names = Inr [Some out]"

text \<open>
  The events with which \<open>onnx_destroy_session\<close> frees the strings of one name array, and
  the test for an event that concerns names only.
\<close>

definition name_frees :: "handle option \<Rightarrow> (nat \<Rightarrow> resource) \<Rightarrow> string option list \<Rightarrow> nat list \<Rightarrow> event list" where
  "name_frees alloc mk names idx =
     concat (map (\<lambda>i. case (names ! i, alloc) of
                         (Some _, Some _) \<Rightarrow> [AllocatorFree (mk i)]
                       | _ \<Rightarrow> []) idx)"

definition name_event :: "event \<Rightarrow> bool" where
  "name_event e =
     (case e of
        AllocatorFree (InputName _) \<Rightarrow> True
      | AllocatorFree (OutputName _) \<Rightarrow> True
      | Free InputNameArray \<Rightarrow> True
      | Free OutputNameArray \<Rightarrow> True
      | _ \<Rightarrow> False)"

subsection \<open>Row-wise extraction\<close>

text \<open>
  The rows \<open>t, ..., time - 1\<close> of a source with row pitch \<open>stride1\<close>, each cut to its first
  \<open>vocab\<close> cells: the reference against which both paths of \<open>copy_2d_output\<close> are measured.
\<close>

definition rows :: "'a list \<Rightarrow> nat \<Rightarrow> nat \<Rightarrow> nat \<Rightarrow> nat \<Rightarrow> 'a list" where
  "rows src vocab stride1 t time =
     concat (map (\<lambda>k. take vocab (drop (k * stride1) src)) [t..<time])"

section \<open>Word and list facts\<close>

lemma unat_succ_lt:
  assumes "(i::64 word) < n"
  shows "unat (i + 1) = Suc (unat i)"
proof -
  have "unat i < unat n" using assms by (simp add: word_less_nat_alt)
  moreover have "unat n < 2 ^ LENGTH(64)" by (rule unsigned_less)
  ultimately have "unat i + unat (1::64 word) < 2 ^ LENGTH(64)" by simp
  then have "unat (i + 1) = unat i + unat (1::64 word)" by (simp only: unat_add_lem)
  then show ?thesis by simp
qed

lemma unat_mult_small:
  "unat (a::64 word) * unat b < 2 ^ 64 \<Longrightarrow> unat (a * b) = unat a * unat b"
  using unat_mult_lem [of a b] by simp

lemma unat_times_sizeof:
  assumes "unat (n::64 word) * 4 < 2 ^ 64"
  shows "unat (n * sizeof_float) = unat n * 4"
proof -
  have "unat n * unat (4::64 word) < 2 ^ 64" using assms by simp
  then have "unat (n * 4) = unat n * unat (4::64 word)" by (rule unat_mult_small)
  then show ?thesis by (simp add: sizeof_float_def)
qed

lemma memcpy_in_bounds:
  assumes "unat nbytes = n * 4" "doff + n \<le> length dst" "soff + n \<le> length src"
  shows "memcpy dst doff src soff nbytes =
           Inr (take doff dst @ take n (drop soff src) @ drop (doff + n) dst)"
  using assms by (simp add: memcpy_def sizeof_float_def)

lemma drop_splice:
  assumes "length a = p" "length b = q" "p + q \<le> n"
  shows "drop n (a @ b @ drop (p + q) xs) = drop n xs"
proof -
  have "drop n (a @ b @ drop (p + q) xs) = drop (n - (p + q)) (drop (p + q) xs)"
    using assms by simp
  also have "\<dots> = drop n xs" using assms by simp
  finally show ?thesis .
qed

lemma take_splice:
  assumes "length a = p" "length b = q"
  shows "take (p + q) (a @ b @ c) = a @ b"
  using assms by simp

section \<open>copy_strided_to_contiguous\<close>

lemma copy_strided_loop_eq:
  assumes "unat i \<le> unat count" "unat count \<le> length dst"
    "\<forall>k < unat count. k * unat stride < length src" "length src < 2 ^ 64"
  shows "copy_strided_loop src count stride i dst =
     Inr (take (unat i) dst @ map (\<lambda>k. src ! (k * unat stride)) [unat i..<unat count]
          @ drop (unat count) dst)"
  using assms
proof (induction src count stride i dst rule: copy_strided_loop.induct)
  case (1 src count stride i dst)
  show ?case
  proof (cases "i < count")
    case False
    then have "unat i = unat count" using "1.prems"(1) by (simp add: word_less_nat_alt)
    then show ?thesis using False by (simp add: copy_strided_loop.simps [of src count stride i dst])
  next
    case True
    then have ilt: "unat i < unat count" by (simp add: word_less_nat_alt)
    have suc: "unat (i + 1) = Suc (unat i)" by (rule unat_succ_lt [OF True])
    have inb: "unat i * unat stride < length src" using "1.prems"(3) ilt by blast
    then have "unat i * unat stride < 2 ^ 64" using "1.prems"(4) by simp
    then have mul: "unat (i * stride) = unat i * unat stride" by (rule unat_mult_small)
    have dlt: "unat i < length dst" using ilt "1.prems"(2) by simp
    let ?x = "src ! (unat i * unat stride)"
    let ?d = "dst[unat i := ?x]"
    have step: "copy_strided_loop src count stride i dst
                  = copy_strided_loop src count stride (i + 1) ?d"
      using True dlt inb mul by (simp add: copy_strided_loop.simps [of src count stride i dst])
    have ih: "copy_strided_loop src count stride (i + 1) ?d =
       Inr (take (unat (i + 1)) ?d @ map (\<lambda>k. src ! (k * unat stride)) [unat (i + 1)..<unat count]
            @ drop (unat count) ?d)"
      using "1.IH" [OF True] dlt inb mul ilt suc "1.prems" by simp
    have t: "take (Suc (unat i)) ?d = take (unat i) dst @ [?x]"
      using dlt by (simp add: take_Suc_conv_app_nth)
    have d: "drop (unat count) ?d = drop (unat count) dst" using ilt by simp
    have u: "[unat i..<unat count] = unat i # [Suc (unat i)..<unat count]"
      using ilt by (simp add: upt_conv_Cons)
    show ?thesis by (simp add: step ih suc t d u)
  qed
qed

text \<open>
  C9. For every count, stride and sufficiently large source buffer,
  \<open>copy_strided_to_contiguous\<close> returns, writes \<open>dst[i] = src[i * stride]\<close> for every
  \<open>i < count\<close> and leaves the rest of the destination alone; for stride 1 the first
  \<open>count\<close> cells of the destination are a straight duplicate of the first \<open>count\<close> source
  cells. "Sufficiently large": the destination holds \<open>count\<close> cells, every index
  \<open>i * stride\<close> lies inside the source, and the source fits a 64-bit address space.
\<close>

theorem copy_strided_to_contiguous_gather:
  assumes "unat count \<le> length dst"
    and "\<forall>i<unat count. i * unat stride < length src"
    and "length src < 2 ^ 64"
  shows "\<exists>dst'. copy_strided_to_contiguous src dst count stride = Inr dst'
      \<and> length dst' = length dst
      \<and> (\<forall>i<unat count. dst' ! i = src ! (i * unat stride))
      \<and> drop (unat count) dst' = drop (unat count) dst
      \<and> (stride = 1 \<longrightarrow> take (unat count) dst' = take (unat count) src)"
proof -
  let ?n = "unat count"
  let ?g = "map (\<lambda>k. src ! (k * unat stride)) [0..<?n]"
  let ?d = "?g @ drop ?n dst"
  have res: "copy_strided_to_contiguous src dst count stride = Inr ?d"
    using copy_strided_loop_eq [of 0 count dst stride src] assms
    by (simp add: copy_strided_to_contiguous_def)
  have len: "length ?d = length dst" using assms(1) by simp
  have elems: "\<forall>i<?n. ?d ! i = src ! (i * unat stride)" by (simp add: nth_append)
  have tail: "drop ?n ?d = drop ?n dst" by simp
  have dup: "take ?n ?d = take ?n src" if "stride = 1"
  proof (rule nth_equalityI)
    have le: "?n \<le> length src"
    proof (cases ?n)
      case 0
      then show ?thesis by simp
    next
      case (Suc m)
      then have "m * unat stride < length src" using assms(2) by simp
      then show ?thesis using Suc that by simp
    qed
    then show "length (take ?n ?d) = length (take ?n src)" by simp
    fix i assume "i < length (take ?n ?d)"
    then have "i < ?n" by simp
    then show "take ?n ?d ! i = take ?n src ! i" using that by (simp add: nth_append)
  qed
  show ?thesis using res len elems tail dup by blast
qed

theorem copy_strided_to_contiguous_gather_witness:
  "copy_strided_to_contiguous [10, 11, 12, 13, 14, 15 :: nat] [0, 0, 0, 7] 3 2
     = Inr [10, 12, 14, 7]
   \<and> (\<exists>dst'. copy_strided_to_contiguous [10, 11, 12, 13, 14, 15 :: nat] [0, 0, 0, 7] 3 2 = Inr dst'
         \<and> (\<forall>i<unat (3 :: 64 word). dst' ! i = [10, 11, 12, 13, 14, 15] ! (i * unat (2 :: 64 word))))"
proof -
  let ?src = "[10, 11, 12, 13, 14, 15 :: nat]" and ?dst = "[0, 0, 0, 7 :: nat]"
  have h1: "unat (3::64 word) \<le> length ?dst" by simp
  have h2: "\<forall>i<unat (3::64 word). i * unat (2::64 word) < length ?src" by simp
  have h3: "length ?src < 2 ^ 64" by simp
  have v: "copy_strided_to_contiguous ?src ?dst 3 2 = Inr [10, 12, 14, 7]" by code_simp
  from copy_strided_to_contiguous_gather [OF h1 h2 h3] v show ?thesis by blast
qed

section \<open>copy_2d_output\<close>

lemma copy_rows_loop_eq:
  assumes "unat t \<le> unat time" "unat time * unat vocab \<le> length dst"
    "\<forall>k < unat time. k * unat stride1 + unat vocab \<le> length src"
    "length src * 4 < 2 ^ 64" "length dst * 4 < 2 ^ 64"
  shows "copy_rows_loop src time vocab stride1 t dst =
     Inr (take (unat t * unat vocab) dst
          @ rows src (unat vocab) (unat stride1) (unat t) (unat time)
          @ drop (unat time * unat vocab) dst)"
  using assms
proof (induction src time vocab stride1 t dst rule: copy_rows_loop.induct)
  case (1 src time vocab stride1 t dst)
  show ?case
  proof (cases "t < time")
    case False
    then have "unat t = unat time" using "1.prems"(1) by (simp add: word_less_nat_alt)
    then show ?thesis using False
      by (simp add: copy_rows_loop.simps [of src time vocab stride1 t dst] rows_def)
  next
    case True
    let ?t = "unat t" and ?T = "unat time" and ?v = "unat vocab" and ?s = "unat stride1"
    have tlt: "?t < ?T" using True by (simp add: word_less_nat_alt)
    have suc: "unat (t + 1) = Suc ?t" by (rule unat_succ_lt [OF True])
    have row: "?t * ?s + ?v \<le> length src" using "1.prems"(3) tlt by blast
    have below: "Suc ?t * ?v \<le> ?T * ?v"
      using tlt by (simp add: Suc_leI mult_le_mono1 del: mult_Suc)
    then have dbound: "?t * ?v + ?v \<le> length dst" using "1.prems"(2) by simp
    have "?v * 4 < 2 ^ 64" using row "1.prems"(4) by simp
    then have nb: "unat (vocab * sizeof_float) = ?v * 4" by (rule unat_times_sizeof)
    have "?t * ?v < 2 ^ 64" using dbound "1.prems"(5) by simp
    then have tv: "unat (t * vocab) = ?t * ?v" by (rule unat_mult_small)
    have "?t * ?s < 2 ^ 64" using row "1.prems"(4) by simp
    then have ts: "unat (t * stride1) = ?t * ?s" by (rule unat_mult_small)
    let ?r = "take ?v (drop (?t * ?s) src)"
    let ?d = "take (?t * ?v) dst @ ?r @ drop (?t * ?v + ?v) dst"
    have m: "memcpy dst (unat (t * vocab)) src (unat (t * stride1)) (vocab * sizeof_float) = Inr ?d"
      unfolding tv ts by (rule memcpy_in_bounds [OF nb dbound row])
    have lr: "length ?r = ?v" using row by simp
    have lp: "length (take (?t * ?v) dst) = ?t * ?v" using dbound by simp
    have ld: "length ?d = length dst" using dbound lr by simp
    have step: "copy_rows_loop src time vocab stride1 t dst
                  = copy_rows_loop src time vocab stride1 (t + 1) ?d"
      using True m by (simp add: copy_rows_loop.simps [of src time vocab stride1 t dst])
    have ih: "copy_rows_loop src time vocab stride1 (t + 1) ?d =
       Inr (take (unat (t + 1) * ?v) ?d @ rows src ?v ?s (unat (t + 1)) ?T @ drop (?T * ?v) ?d)"
      using "1.IH" [OF True m] tlt suc "1.prems" ld by simp
    have "take (?t * ?v + ?v) ?d = take (?t * ?v) dst @ ?r"
      by (rule take_splice [OF lp lr])
    then have tk: "take (Suc ?t * ?v) ?d = take (?t * ?v) dst @ ?r"
      by (simp add: add.commute)
    have "?t * ?v + ?v \<le> ?T * ?v" using below by simp
    then have dr: "drop (?T * ?v) ?d = drop (?T * ?v) dst"
      by (rule drop_splice [OF lp lr])
    have u: "rows src ?v ?s ?t ?T = ?r @ rows src ?v ?s (Suc ?t) ?T"
      using tlt by (simp add: rows_def upt_conv_Cons)
    show ?thesis by (simp only: step ih suc tk dr u append_assoc)
  qed
qed

lemma rows_Suc: "rows src v s 0 (Suc T) = rows src v s 0 T @ take v (drop (T * s) src)"
  by (simp add: rows_def)

lemma length_rows:
  "\<forall>k<T. k * s + v \<le> length src \<Longrightarrow> length (rows src v s 0 T) = T * v"
proof (induction T)
  case 0
  show ?case by (simp add: rows_def)
next
  case (Suc T)
  have "T * s + v \<le> length src" using Suc.prems by simp
  then have "length (take v (drop (T * s) src)) = v" by simp
  then show ?case using Suc by (simp add: rows_Suc)
qed

lemma rows_contiguous: "rows src v v 0 T = take (T * v) src"
proof (induction T)
  case 0
  show ?case by (simp add: rows_def)
next
  case (Suc T)
  have "take (T * v + v) src = take (T * v) src @ take v (drop (T * v) src)"
    by (rule take_add)
  then show ?case by (simp add: rows_Suc Suc add.commute)
qed

lemma nth_rows:
  assumes "\<forall>k<T. k * s + v \<le> length src" "t < T" "j < v"
  shows "rows src v s 0 T ! (t * v + j) = src ! (t * s + j)"
  using assms
proof (induction T)
  case 0
  then show ?case by simp
next
  case (Suc T)
  have len: "length (rows src v s 0 T) = T * v"
    using Suc.prems(1) by (simp add: length_rows)
  show ?case
  proof (cases "t < T")
    case True
    have "t * v + j < Suc t * v" using Suc.prems(3) by simp
    also have "\<dots> \<le> T * v" using True by (simp add: Suc_leI mult_le_mono1 del: mult_Suc)
    finally have "t * v + j < length (rows src v s 0 T)" using len by simp
    then show ?thesis using Suc.IH Suc.prems True by (simp add: rows_Suc nth_append)
  next
    case False
    then have "t = T" using Suc.prems(2) by simp
    moreover have "T * s + v \<le> length src" using Suc.prems(1) by simp
    ultimately show ?thesis using len Suc.prems(3) by (simp add: rows_Suc nth_append)
  qed
qed

text \<open>
  A source of at least \<open>time\<close> rows of pitch \<open>stride1 \<ge> vocab\<close> holds every row.
\<close>

lemma rows_inside_source:
  assumes "vocab \<le> stride1" "time * stride1 \<le> length src" "t < time"
  shows "t * stride1 + vocab \<le> length (src :: 'a list)"
proof -
  have "t * stride1 + vocab \<le> Suc t * stride1" using assms(1) by simp
  also have "\<dots> \<le> time * stride1"
    using assms(3) by (simp add: Suc_leI mult_le_mono1 del: mult_Suc)
  finally show ?thesis using assms(2) by simp
qed

text \<open>
  C8. For every \<open>time\<close>, \<open>vocab\<close>, \<open>stride1\<close> and source buffer that holds \<open>time\<close> rows of
  \<open>vocab\<close> cells at pitch \<open>stride1\<close> (and a destination of \<open>time * vocab\<close> cells, both
  buffers inside a 64-bit address space), \<open>copy_2d_output\<close> returns \<open>time * vocab\<close>, which
  does not wrap, and a destination whose cell \<open>(t, v)\<close> is source cell
  \<open>t * stride1 + v\<close>, the cells behind \<open>time * vocab\<close> untouched. The row-by-row loop run on
  the same arguments yields that same destination, and when \<open>stride1 = vocab\<close> so does the
  single bulk \<open>memcpy\<close>: the fast path is cell for cell the row-by-row path.
\<close>

theorem copy_2d_output_rows:
  assumes "unat time * unat vocab \<le> length dst"
    and "\<forall>t<unat time. t * unat stride1 + unat vocab \<le> length src"
    and "length src * 4 < 2 ^ 64" and "length dst * 4 < 2 ^ 64"
  shows "\<exists>dst'. copy_2d_output src dst time vocab stride1 = Inr (dst', time * vocab)
      \<and> unat (time * vocab) = unat time * unat vocab
      \<and> length dst' = length dst
      \<and> (\<forall>t<unat time. \<forall>v<unat vocab.
            dst' ! (t * unat vocab + v) = src ! (t * unat stride1 + v))
      \<and> drop (unat time * unat vocab) dst' = drop (unat time * unat vocab) dst
      \<and> copy_rows_loop src time vocab stride1 0 dst = Inr dst'
      \<and> (stride1 = vocab \<longrightarrow> memcpy dst 0 src 0 (time * vocab * sizeof_float) = Inr dst')"
proof -
  let ?T = "unat time" and ?v = "unat vocab" and ?s = "unat stride1"
  let ?R = "rows src ?v ?s 0 ?T"
  let ?d = "?R @ drop (?T * ?v) dst"
  have lenR: "length ?R = ?T * ?v" using assms(2) by (rule length_rows)
  have loop: "copy_rows_loop src time vocab stride1 0 dst = Inr ?d"
    using copy_rows_loop_eq [of 0 time vocab dst stride1 src] assms by simp
  have "?T * ?v < 2 ^ 64" using assms(1,4) by simp
  then have tv: "unat (time * vocab) = ?T * ?v" by (rule unat_mult_small)
  have bulk: "memcpy dst 0 src 0 (time * vocab * sizeof_float) = Inr ?d" if eq: "stride1 = vocab"
  proof -
    have "unat (time * vocab) * 4 < 2 ^ 64" using tv assms(1,4) by simp
    then have nb: "unat (time * vocab * sizeof_float) = ?T * ?v * 4"
      using unat_times_sizeof [of "time * vocab"] tv by simp
    have "?T * ?v \<le> length src"
    proof (cases "?T")
      case 0
      then show ?thesis by simp
    next
      case (Suc n)
      then have "n * ?v + ?v \<le> length src" using assms(2) eq by simp
      then show ?thesis using Suc by (simp add: add.commute)
    qed
    then have "memcpy dst 0 src 0 (time * vocab * sizeof_float) =
        Inr (take 0 dst @ take (?T * ?v) (drop 0 src) @ drop (0 + ?T * ?v) dst)"
      using assms(1) by (intro memcpy_in_bounds [OF nb]) simp_all
    then show ?thesis using eq by (simp add: rows_contiguous)
  qed
  have res: "copy_2d_output src dst time vocab stride1 = Inr (?d, time * vocab)"
    using loop bulk by (simp add: copy_2d_output_def)
  have len: "length ?d = length dst" using lenR assms(1) by simp
  have elems: "\<forall>t<?T. \<forall>j<?v. ?d ! (t * ?v + j) = src ! (t * ?s + j)"
  proof (intro allI impI)
    fix t j assume t: "t < ?T" and j: "j < ?v"
    have "t * ?v + j < Suc t * ?v" using j by simp
    also have "\<dots> \<le> ?T * ?v" using t by (simp add: Suc_leI mult_le_mono1 del: mult_Suc)
    finally have "t * ?v + j < length ?R" using lenR by simp
    then have "?d ! (t * ?v + j) = ?R ! (t * ?v + j)" by (simp add: nth_append)
    then show "?d ! (t * ?v + j) = src ! (t * ?s + j)"
      using nth_rows [OF assms(2) t j] by simp
  qed
  have tail: "drop (?T * ?v) ?d = drop (?T * ?v) dst" using lenR by simp
  show ?thesis using res tv len elems tail loop bulk by blast
qed

theorem copy_2d_output_rows_witness:
  "copy_2d_output [1, 2, 9, 3, 4, 9 :: nat] [0, 0, 0, 0, 7] 2 2 3 = Inr ([1, 2, 3, 4, 7], 4)
   \<and> (\<exists>dst'. copy_2d_output [1, 2, 9, 3, 4, 9 :: nat] [0, 0, 0, 0, 7] 2 2 3 = Inr (dst', 2 * 2)
         \<and> copy_rows_loop [1, 2, 9, 3, 4, 9 :: nat] 2 2 3 0 [0, 0, 0, 0, 7] = Inr dst')"
proof -
  let ?src = "[1, 2, 9, 3, 4, 9 :: nat]" and ?dst = "[0, 0, 0, 0, 7 :: nat]"
  have h1: "unat (2::64 word) * unat (2::64 word) \<le> length ?dst" by simp
  have h2: "\<forall>t<unat (2::64 word). t * unat (3::64 word) + unat (2::64 word) \<le> length ?src"
    by simp
  have h3: "length ?src * 4 < 2 ^ 64" by simp
  have h4: "length ?dst * 4 < 2 ^ 64" by simp
  have v: "copy_2d_output ?src ?dst 2 2 3 = Inr ([1, 2, 3, 4, 7], 4)" by code_simp
  from copy_2d_output_rows [OF h1 h2 h3 h4] v show ?thesis by blast
qed

section \<open>onnx_wrapper.c: basic facts\<close>

lemma fault_bind_simps:
  "fault_bind (Inl f) k = Inl f"
  "fault_bind (Inr x) k = k x"
  by (simp_all add: fault_bind_def)

lemma deref_simps:
  "deref None = Inl NullDeref"
  "deref (Some x) = Inr x"
  by (simp_all add: deref_def)

lemma set_ort_error_initialized:
  "g_ort g = Some api \<Longrightarrow>
   set_ort_error (Some st) (g, tr) =
     (set_error (case GetErrorMessage st of Some msg \<Rightarrow> msg | None \<Rightarrow> ''Unknown ONNX error'') g,
      tr @ [Released StatusObj])"
  by (simp add: set_ort_error_def)

lemma bytes_128: "unat (128 * sizeof_float) = 128 * 4"
  by (simp add: sizeof_float_def)

lemma combine_state_eq:
  assumes "malloc_ok hp 0" "128 \<le> length h" "128 \<le> length c"
  shows "combine_state hp (Some h) (Some c) = Inr (take 128 h @ take 128 c)"
proof -
  let ?b = "map (fresh hp) [0..<256]"
  have m: "malloc hp 0 256 = Some ?b" using assms(1) by (simp add: malloc_def)
  have c1: "memcpy ?b 0 h 0 (128 * sizeof_float) = Inr (take 0 ?b @ take 128 (drop 0 h) @ drop (0 + 128) ?b)"
    using assms(2) by (intro memcpy_in_bounds [OF bytes_128]) simp_all
  let ?b1 = "take 128 h @ drop 128 ?b"
  have l1: "length ?b1 = 256" using assms(2) by simp
  have c2: "memcpy ?b1 128 c 0 (128 * sizeof_float) = Inr (take 128 ?b1 @ take 128 (drop 0 c) @ drop (128 + 128) ?b1)"
    using assms(3) l1 by (intro memcpy_in_bounds [OF bytes_128]) simp_all
  have "take 128 ?b1 = take 128 h" using assms(2) by simp
  moreover have "drop (128 + 128) ?b1 = []" using l1 by simp
  ultimately have c2': "memcpy ?b1 128 c 0 (128 * sizeof_float) = Inr (take 128 h @ take 128 c)"
    using c2 by simp
  show ?thesis
    using m c1 c2' by (simp add: combine_state_def fault_bind_simps deref_simps)
qed

section \<open>Calls in an uninitialized environment\<close>

text \<open>
  C6. While the runtime environment is uninitialized, every inference call returns \<open>-1\<close>
  with the last-error string set, \<open>onnx_create_session\<close> returns a null handle with the
  last-error string set, and none of them faults or touches a caller buffer or acquires
  anything. The environment is uninitialized (\<open>g_ort\<close> is \<open>NULL\<close>) before any call of
  \<open>onnx_init\<close> and after every call of \<open>onnx_cleanup\<close>.
\<close>

theorem uninitialized_environment_rejects_calls:
  "g_ort (initial_globals :: 'a globals) = None
   \<and> g_ort (fst (onnx_cleanup (before :: 'a globals))) = None
   \<and> (g_ort (g :: 'a globals) = None \<longrightarrow>
        onnx_run_vad hp g sp audio audio_len h_in c_in prob_out h_out c_out
          = Inr \<lparr>vad_ret = - 1, vad_globals = g\<lparr>g_error_msg := ''Invalid session''\<rparr>,
                 vad_prob_out = prob_out, vad_h_out = h_out, vad_c_out = c_out, vad_trace = []\<rparr>
      \<and> onnx_run_asr hp g sp mel_lfr frames features logits_out max_output_size
          = Inr \<lparr>run_ret = - 1, run_globals = g\<lparr>g_error_msg := ''Invalid session''\<rparr>,
                 run_out = logits_out, run_trace = []\<rparr>
      \<and> onnx_run_speaker g sp fbank frames embedding_out
          = Inr \<lparr>run_ret = - 1, run_globals = g\<lparr>g_error_msg := ''Invalid session''\<rparr>,
                 run_out = embedding_out, run_trace = []\<rparr>
      \<and> onnx_create_session hp g model_path
          = Inr (None, g\<lparr>g_error_msg := ''ONNX Runtime not initialized''\<rparr>, []))"
proof -
  have init: "g_ort (initial_globals :: 'a globals) = None" by (simp add: initial_globals_def)
  have shut: "g_ort (fst (onnx_cleanup before)) = None" by (simp add: onnx_cleanup_def)
  have calls: "onnx_run_vad hp g sp audio audio_len h_in c_in prob_out h_out c_out
          = Inr \<lparr>vad_ret = - 1, vad_globals = g\<lparr>g_error_msg := ''Invalid session''\<rparr>,
                 vad_prob_out = prob_out, vad_h_out = h_out, vad_c_out = c_out, vad_trace = []\<rparr>
      \<and> onnx_run_asr hp g sp mel_lfr frames features logits_out max_output_size
          = Inr \<lparr>run_ret = - 1, run_globals = g\<lparr>g_error_msg := ''Invalid session''\<rparr>,
                 run_out = logits_out, run_trace = []\<rparr>
      \<and> onnx_run_speaker g sp fbank frames embedding_out
          = Inr \<lparr>run_ret = - 1, run_globals = g\<lparr>g_error_msg := ''Invalid session''\<rparr>,
                 run_out = embedding_out, run_trace = []\<rparr>
      \<and> onnx_create_session hp g model_path
          = Inr (None, g\<lparr>g_error_msg := ''ONNX Runtime not initialized''\<rparr>, [])"
    if "g_ort g = None"
    using that
    by (simp add: onnx_run_vad_def onnx_run_asr_def onnx_run_speaker_def onnx_create_session_def
        set_error_def split: option.splits)
  show ?thesis using init shut calls by blast
qed

theorem uninitialized_environment_rejects_calls_witness:
  "onnx_run_vad sample_heap initial_globals (Some sample_session) (Some [0, 0, 0, 0]) 4
     (Some (replicate 128 1)) (Some (replicate 128 2))
     (Some 0) (Some (replicate 128 0)) (Some (replicate 128 0))
     = Inr \<lparr>vad_ret = - 1, vad_globals = initial_globals\<lparr>g_error_msg := ''Invalid session''\<rparr>,
            vad_prob_out = Some 0, vad_h_out = Some (replicate 128 0),
            vad_c_out = Some (replicate 128 0), vad_trace = []\<rparr>
   \<and> onnx_create_session sample_heap
       (fst (onnx_cleanup (sample_globals (sample_api create_ok (echo_run (7::nat))))))
       ''model.onnx''
     = Inr (None,
            (fst (onnx_cleanup (sample_globals (sample_api create_ok (echo_run 7)))))
              \<lparr>g_error_msg := ''ONNX Runtime not initialized''\<rparr>, [])"
proof -
  let ?G = "sample_globals (sample_api create_ok (echo_run (7::nat)))"
  note a = uninitialized_environment_rejects_calls
             [where before = ?G and g = "initial_globals :: nat globals" and hp = sample_heap
                and sp = "Some sample_session" and audio = "Some [0, 0, 0, 0]" and audio_len = 4
                and h_in = "Some (replicate 128 1)" and c_in = "Some (replicate 128 2)"
                and prob_out = "Some 0" and h_out = "Some (replicate 128 0)"
                and c_out = "Some (replicate 128 0)"]
  note b = uninitialized_environment_rejects_calls
             [where before = ?G and g = "fst (onnx_cleanup ?G)" and hp = sample_heap
                and model_path = "''model.onnx''"]
  from a b show ?thesis by (simp add: initial_globals_def onnx_cleanup_def)
qed

section \<open>onnx_run_vad\<close>

lemma upt_0_2: "[0..<2] = [0, 1]" by code_simp
lemma upt_0_3: "[0..<3] = [0, 1, 2]" by code_simp

lemma vad_cleanup_trace:
  "vad_trace (vad_cleanup [a, b, c] mi st (g, tr) p h cc) =
     tr @ (case a of Some _ \<Rightarrow> [Released (InputValue 0)] | None \<Rightarrow> [])
        @ (case b of Some _ \<Rightarrow> [Released (InputValue 1)] | None \<Rightarrow> [])
        @ (case c of Some _ \<Rightarrow> [Released (InputValue 2)] | None \<Rightarrow> [])
        @ (case mi of Some _ \<Rightarrow> [Released MemoryInfo] | None \<Rightarrow> [])"
  by (simp add: vad_cleanup_def upt_0_3 split: option.splits)

lemma output_events_pair:
  "output_events ev [a, b] =
     (case a of Some _ \<Rightarrow> [ev (OutputValue 0)] | None \<Rightarrow> [])
     @ (case b of Some _ \<Rightarrow> [ev (OutputValue 1)] | None \<Rightarrow> [])"
  by (simp add: output_events_def upt_0_2 split: option.splits)

lemma vad_extract_ok:
  assumes "data out0 = Some (x # xs)" "data out1 = Some sd" "256 \<le> length sd"
    and "\<forall>hb. h_out = Some hb \<longrightarrow> 128 \<le> length hb"
    and "\<forall>cb. c_out = Some cb \<longrightarrow> 128 \<le> length cb"
  shows "vad_extract api [Some out0, Some out1] prob_out h_out c_out =
     Inr (map_option (\<lambda>_. x) prob_out,
          map_option (\<lambda>hb. take 128 sd @ drop 128 hb) h_out,
          map_option (\<lambda>cb. take 128 (drop 128 sd) @ drop 128 cb) c_out,
          dropped_status api 0 out0 @ dropped_status api 1 out1)"
proof -
  have h: "memcpy hb 0 sd 0 (128 * sizeof_float) = Inr (take 128 sd @ drop 128 hb)"
    if "h_out = Some hb" for hb
  proof -
    have "128 \<le> length hb" using assms(4) that by simp
    then have "memcpy hb 0 sd 0 (128 * sizeof_float)
        = Inr (take 0 hb @ take 128 (drop 0 sd) @ drop (0 + 128) hb)"
      using assms(3) by (intro memcpy_in_bounds [OF bytes_128]) simp_all
    then show ?thesis by simp
  qed
  have c: "memcpy cb 0 sd 128 (128 * sizeof_float) = Inr (take 128 (drop 128 sd) @ drop 128 cb)"
    if "c_out = Some cb" for cb
  proof -
    have "128 \<le> length cb" using assms(5) that by simp
    then have "memcpy cb 0 sd 128 (128 * sizeof_float)
        = Inr (take 0 cb @ take 128 (drop 128 sd) @ drop (0 + 128) cb)"
      using assms(3) by (intro memcpy_in_bounds [OF bytes_128]) simp_all
    then show ?thesis by simp
  qed
  show ?thesis
    using assms(1,2) h c
    by (cases prob_out; cases h_out; cases c_out)
       (simp_all add: vad_extract_def Let_def fault_bind_simps deref_simps)
qed

lemma onnx_run_vad_success:
  assumes "g_ort g = Some api" "CreateCpuMemoryInfo api = Inr mi"
    and "malloc_ok hp 0" "128 \<le> length h" "128 \<le> length c"
    and "CreateTensorWithDataAsOrtValue api mi (vad_audio_tensor audio audio_len) = None"
    and "CreateTensorWithDataAsOrtValue api mi (vad_state_tensor (take 128 h @ take 128 c)) = None"
    and "CreateTensorWithDataAsOrtValue api mi vad_sr_tensor = None"
    and "Run api (session s) [Some ''input'', Some ''state'', Some ''sr'']
           [vad_audio_tensor audio audio_len, vad_state_tensor (take 128 h @ take 128 c),
            vad_sr_tensor]
           [Some ''output'', Some ''stateN''] = Inr [Some out0, Some out1]"
    and "data out0 = Some (x # xs)" "data out1 = Some sd" "256 \<le> length sd"
    and "\<forall>hb. h_out = Some hb \<longrightarrow> 128 \<le> length hb"
    and "\<forall>cb. c_out = Some cb \<longrightarrow> 128 \<le> length cb"
  shows "onnx_run_vad hp g (Some s) audio audio_len (Some h) (Some c) prob_out h_out c_out =
     Inr \<lparr>vad_ret = 0, vad_globals = g,
          vad_prob_out = map_option (\<lambda>_. x) prob_out,
          vad_h_out = map_option (\<lambda>hb. take 128 sd @ drop 128 hb) h_out,
          vad_c_out = map_option (\<lambda>cb. take 128 (drop 128 sd) @ drop 128 cb) c_out,
          vad_trace = vad_success_trace api out0 out1\<rparr>"
proof -
  have cs: "combine_state hp (Some h) (Some c) = Inr (take 128 h @ take 128 c)"
    using assms(3-5) by (rule combine_state_eq)
  have ex: "vad_extract api [Some out0, Some out1] prob_out h_out c_out =
     Inr (map_option (\<lambda>_. x) prob_out,
          map_option (\<lambda>hb. take 128 sd @ drop 128 hb) h_out,
          map_option (\<lambda>cb. take 128 (drop 128 sd) @ drop 128 cb) c_out,
          dropped_status api 0 out0 @ dropped_status api 1 out1)"
    using assms(10-14) by (rule vad_extract_ok)
  show ?thesis
    using assms(1,2,6-9) cs ex
    by (simp add: onnx_run_vad_def vad_body_def Let_def fault_bind_simps
        output_events_pair vad_cleanup_def upt_0_3 vad_success_trace_def)
qed

text \<open>
  C7. In a call of \<open>onnx_run_vad\<close> in which every runtime call succeeds, each of
  \<open>prob_out\<close>, \<open>h_out\<close>, \<open>c_out\<close> that is \<open>NULL\<close> is skipped (it stays \<open>NULL\<close>, nothing is
  written), each one that is not \<open>NULL\<close> is written (the probability cell, the first 128
  floats of the state output, the next 128), the call does not fault, returns 0 and leaves
  the last-error string alone. The eight combinations of null and non-null outputs are
  the instances of \<open>prob_out\<close>, \<open>h_out\<close>, \<open>c_out\<close>.
\<close>

theorem onnx_run_vad_null_outputs_skipped:
  assumes "g_ort g = Some api" "CreateCpuMemoryInfo api = Inr mi"
    and "malloc_ok hp 0" "128 \<le> length h" "128 \<le> length c"
    and "CreateTensorWithDataAsOrtValue api mi (vad_audio_tensor audio audio_len) = None"
    and "CreateTensorWithDataAsOrtValue api mi (vad_state_tensor (take 128 h @ take 128 c)) = None"
    and "CreateTensorWithDataAsOrtValue api mi vad_sr_tensor = None"
    and "Run api (session s) [Some ''input'', Some ''state'', Some ''sr'']
           [vad_audio_tensor audio audio_len, vad_state_tensor (take 128 h @ take 128 c),
            vad_sr_tensor]
           [Some ''output'', Some ''stateN''] = Inr [Some out0, Some out1]"
    and "data out0 = Some (x # xs)" "data out1 = Some sd" "256 \<le> length sd"
    and "\<forall>hb. h_out = Some hb \<longrightarrow> 128 \<le> length hb"
    and "\<forall>cb. c_out = Some cb \<longrightarrow> 128 \<le> length cb"
  shows "\<exists>r. onnx_run_vad hp g (Some s) audio audio_len (Some h) (Some c) prob_out h_out c_out = Inr r
      \<and> vad_ret r = 0 \<and> vad_globals r = g
      \<and> vad_prob_out r = (case prob_out of None \<Rightarrow> None | Some _ \<Rightarrow> Some x)
      \<and> vad_h_out r = (case h_out of None \<Rightarrow> None
                        | Some hb \<Rightarrow> Some (take 128 sd @ drop 128 hb))
      \<and> vad_c_out r = (case c_out of None \<Rightarrow> None
                        | Some cb \<Rightarrow> Some (take 128 (drop 128 sd) @ drop 128 cb))"
  using onnx_run_vad_success [OF assms, of prob_out]
  by (simp split: option.splits)

theorem onnx_run_vad_null_outputs_skipped_witness:
  "\<exists>r. onnx_run_vad sample_heap (sample_globals (sample_api create_ok (echo_run 7))) (Some sample_session)
          (Some [0, 0, 0, 0]) 4 (Some (replicate 128 1)) (Some (replicate 128 2))
          None None (Some (replicate 128 0)) = Inr r
      \<and> vad_ret r = 0 \<and> vad_prob_out r = None \<and> vad_h_out r = None
      \<and> vad_c_out r = Some (replicate 128 2)"
proof -
  let ?api = "sample_api create_ok (echo_run (7::nat))"
  let ?g = "sample_globals ?api"
  let ?h = "replicate 128 (1::nat)" and ?c = "replicate 128 (2::nat)"
  let ?sd = "?h @ ?c"
  let ?o0 = "\<lparr>dims = [1, 1], data = Some [7::nat]\<rparr>"
  let ?o1 = "\<lparr>dims = [2, 1, 128], data = Some ?sd\<rparr>"
  have 1: "g_ort ?g = Some ?api" by (simp add: sample_globals_def)
  have 2: "CreateCpuMemoryInfo ?api = Inr 5" by (simp add: sample_api_def)
  have 3: "malloc_ok sample_heap 0" by (simp add: sample_heap_def)
  have 4: "128 \<le> length ?h" and 5: "128 \<le> length ?c" by simp_all
  have 6: "CreateTensorWithDataAsOrtValue ?api 5 t = None" for t
    by (simp add: sample_api_def create_ok_def)
  have 9: "Run ?api (session sample_session) [Some ''input'', Some ''state'', Some ''sr'']
           [vad_audio_tensor (Some [0, 0, 0, 0]) 4, vad_state_tensor (take 128 ?h @ take 128 ?c),
            vad_sr_tensor]
           [Some ''output'', Some ''stateN''] = Inr [Some ?o0, Some ?o1]"
    by (simp add: sample_api_def echo_run_def vad_state_tensor_def)
  have 10: "data ?o0 = Some (7 # [])" and 11: "data ?o1 = Some ?sd" and 12: "256 \<le> length ?sd"
    by simp_all
  have 13: "\<forall>hb. (None :: nat list option) = Some hb \<longrightarrow> 128 \<le> length hb" by simp
  have 14: "\<forall>cb. Some (replicate 128 (0::nat)) = Some cb \<longrightarrow> 128 \<le> length cb" by simp
  from onnx_run_vad_null_outputs_skipped [OF 1 2 3 4 5 6 6 6 9 10 11 12 13 14, of None]
  show ?thesis by auto
qed

text \<open>
  C1. For every pair of 128-float vectors \<open>h_in\<close>, \<open>c_in\<close>, \<open>onnx_run_vad\<close> packs them into
  one contiguous 256-float buffer, \<open>h\<close> first and then \<open>c\<close>, and hands that buffer to the
  runtime as the tensor of shape \<open>(2, 1, 128)\<close>. When every runtime call succeeds, the call
  writes \<open>h_out\<close> from the first 128 floats of the state output and \<open>c_out\<close> from the
  following 128. With no inference interposed, that is when the state output is the packed
  buffer itself, \<open>h_out\<close> and \<open>c_out\<close> are the pair \<open>h_in\<close>, \<open>c_in\<close> again.
\<close>

theorem onnx_run_vad_state_roundtrip:
  assumes "length h = 128" "length c = 128" "length hb = 128" "length cb = 128"
    and "g_ort g = Some api" "CreateCpuMemoryInfo api = Inr mi" "malloc_ok hp 0"
    and "CreateTensorWithDataAsOrtValue api mi (vad_audio_tensor audio audio_len) = None"
    and "CreateTensorWithDataAsOrtValue api mi (vad_state_tensor (h @ c)) = None"
    and "CreateTensorWithDataAsOrtValue api mi vad_sr_tensor = None"
    and "Run api (session s) [Some ''input'', Some ''state'', Some ''sr'']
           [vad_audio_tensor audio audio_len, vad_state_tensor (h @ c), vad_sr_tensor]
           [Some ''output'', Some ''stateN''] = Inr [Some out0, Some out1]"
    and "data out0 = Some (x # xs)" "data out1 = Some sd" "256 \<le> length sd"
  shows "combine_state hp (Some h) (Some c) = Inr (h @ c)
      \<and> p_data (vad_state_tensor (h @ c)) = Some (FloatData (h @ c))
      \<and> shape (vad_state_tensor (h @ c)) = [2, 1, 128]
      \<and> (\<exists>r. onnx_run_vad hp g (Some s) audio audio_len (Some h) (Some c)
                 prob_out (Some hb) (Some cb) = Inr r
             \<and> vad_ret r = 0
             \<and> vad_h_out r = Some (take 128 sd)
             \<and> vad_c_out r = Some (take 128 (drop 128 sd))
             \<and> (sd = h @ c \<longrightarrow> vad_h_out r = Some h \<and> vad_c_out r = Some c))"
proof -
  have hc: "take 128 h @ take 128 c = h @ c" using assms(1,2) by simp
  have pack: "combine_state hp (Some h) (Some c) = Inr (h @ c)"
    using combine_state_eq [of hp h c] assms(1,2,7) hc by simp
  have hb: "\<forall>b. Some hb = Some b \<longrightarrow> 128 \<le> length b" using assms(3) by simp
  have cb: "\<forall>b. Some cb = Some b \<longrightarrow> 128 \<le> length b" using assms(4) by simp
  have h128: "128 \<le> length h" and c128: "128 \<le> length c" using assms(1,2) by simp_all
  have run: "onnx_run_vad hp g (Some s) audio audio_len (Some h) (Some c)
               prob_out (Some hb) (Some cb) =
     Inr \<lparr>vad_ret = 0, vad_globals = g,
          vad_prob_out = map_option (\<lambda>_. x) prob_out,
          vad_h_out = map_option (\<lambda>hb. take 128 sd @ drop 128 hb) (Some hb),
          vad_c_out = map_option (\<lambda>cb. take 128 (drop 128 sd) @ drop 128 cb) (Some cb),
          vad_trace = vad_success_trace api out0 out1\<rparr>"
    using assms(8-11)
    by (intro onnx_run_vad_success [OF assms(5,6,7) h128 c128 _ _ _ _ assms(12,13,14) hb cb])
       (simp_all add: hc)
  have echo: "take 128 sd = h \<and> take 128 (drop 128 sd) = c" if "sd = h @ c"
    using that assms(1,2) by simp
  show ?thesis
    using pack run echo assms(3,4) by (simp add: vad_state_tensor_def)
qed

theorem onnx_run_vad_state_roundtrip_witness:
  "\<exists>r. onnx_run_vad sample_heap (sample_globals (sample_api create_ok (echo_run 7))) (Some sample_session)
          (Some [0, 0, 0, 0]) 4 (Some (replicate 128 1)) (Some (replicate 128 2))
          (Some 0) (Some (replicate 128 0)) (Some (replicate 128 0)) = Inr r
      \<and> vad_h_out r = Some (replicate 128 1) \<and> vad_c_out r = Some (replicate 128 2)"
proof -
  let ?api = "sample_api create_ok (echo_run (7::nat))"
  let ?g = "sample_globals ?api"
  let ?h = "replicate 128 (1::nat)" and ?c = "replicate 128 (2::nat)"
  let ?z = "replicate 128 (0::nat)"
  let ?sd = "?h @ ?c"
  let ?o0 = "\<lparr>dims = [1, 1], data = Some [7::nat]\<rparr>"
  let ?o1 = "\<lparr>dims = [2, 1, 128], data = Some ?sd\<rparr>"
  have l: "length ?h = 128" "length ?c = 128" "length ?z = 128" by simp_all
  have 1: "g_ort ?g = Some ?api" by (simp add: sample_globals_def)
  have 2: "CreateCpuMemoryInfo ?api = Inr 5" by (simp add: sample_api_def)
  have 3: "malloc_ok sample_heap 0" by (simp add: sample_heap_def)
  have 6: "CreateTensorWithDataAsOrtValue ?api 5 t = None" for t
    by (simp add: sample_api_def create_ok_def)
  have 9: "Run ?api (session sample_session) [Some ''input'', Some ''state'', Some ''sr'']
           [vad_audio_tensor (Some [0, 0, 0, 0]) 4, vad_state_tensor (?h @ ?c), vad_sr_tensor]
           [Some ''output'', Some ''stateN''] = Inr [Some ?o0, Some ?o1]"
    by (simp add: sample_api_def echo_run_def vad_state_tensor_def)
  have 10: "data ?o0 = Some (7 # [])" and 11: "data ?o1 = Some ?sd" and 12: "256 \<le> length ?sd"
    by simp_all
  from onnx_run_vad_state_roundtrip [OF l(1,2,3,3) 1 2 3 6 6 6 9 10 11 12, of "Some 0"]
  show ?thesis by auto
qed

lemma output_slots: "\<exists>a b. take 2 (outs @ [None, None]) = [a, b]"
proof (cases outs)
  case Nil
  then show ?thesis by simp
next
  case (Cons a rest)
  then show ?thesis by (cases rest) simp_all
qed

lemma vad_extract_returns:
  "vad_extract api [a, b] prob_out h_out c_out = Inr res \<Longrightarrow> a \<noteq> None \<and> b \<noteq> None"
  by (cases a; cases b)
     (auto simp: vad_extract_def fault_bind_def deref_def split: sum.splits)

lemma vad_body_leftover:
  assumes "vad_body hp api g s mi audio audio_len h_in c_in prob_out h_out c_out = Inr r"
    and "g_ort g = Some api"
  shows "\<exists>live. track_all (vad_trace r) [] = Some live
      \<and> (\<forall>x\<in>set live. getter_status x)
      \<and> (\<forall>i. GetterStatus i \<in> set live \<longleftrightarrow> Created (GetterStatus i) \<in> set (vad_trace r))
      \<and> ((\<forall>out. GetTensorMutableData api out = None) \<longrightarrow> live = [])"
proof (cases "CreateTensorWithDataAsOrtValue api mi (vad_audio_tensor audio audio_len)")
  case (Some st)
  then show ?thesis
    using assms
    by (auto simp: vad_body_def Let_def set_ort_error_initialized vad_cleanup_trace)
next
  case t0: None
  show ?thesis
  proof (cases "combine_state hp h_in c_in")
    case (Inl f)
    then show ?thesis using assms t0 by (simp add: vad_body_def Let_def fault_bind_simps)
  next
    case (Inr cs)
    show ?thesis
    proof (cases "CreateTensorWithDataAsOrtValue api mi (vad_state_tensor cs)")
      case (Some st)
      then show ?thesis
        using assms t0 Inr
        by (auto simp: vad_body_def Let_def fault_bind_simps set_ort_error_initialized
            vad_cleanup_trace)
    next
      case t1: None
      show ?thesis
      proof (cases "CreateTensorWithDataAsOrtValue api mi vad_sr_tensor")
        case (Some st)
        then show ?thesis
          using assms t0 Inr t1
          by (auto simp: vad_body_def Let_def fault_bind_simps set_ort_error_initialized
              vad_cleanup_trace)
      next
        case t2: None
        show ?thesis
        proof (cases "Run api (session s) [Some ''input'', Some ''state'', Some ''sr'']
                 [vad_audio_tensor audio audio_len, vad_state_tensor cs, vad_sr_tensor]
                 [Some ''output'', Some ''stateN'']")
          case (Inl st)
          then show ?thesis
            using assms t0 Inr t1 t2
            by (auto simp: vad_body_def Let_def fault_bind_simps set_ort_error_initialized
                vad_cleanup_trace)
        next
          case run: (Inr outs)
          obtain a b where slots: "take 2 (outs @ [None, None]) = [a, b]"
            using output_slots by blast
          from assms t0 Inr t1 t2 run slots
          obtain res where ex: "vad_extract api [a, b] prob_out h_out c_out = Inr res"
            by (cases "vad_extract api [a, b] prob_out h_out c_out")
               (auto simp: vad_body_def Let_def fault_bind_simps)
          then have "a \<noteq> None \<and> b \<noteq> None" by (rule vad_extract_returns)
          then obtain oa ob where ab: "a = Some oa" "b = Some ob" by auto
          obtain prob h c tr where res: "res = (prob, h, c, tr)" by (cases res) auto
          have tr: "tr = dropped_status api 0 oa @ dropped_status api 1 ob"
            using ex ab res
            by (auto simp: vad_extract_def Let_def fault_bind_def deref_def
                split: sum.splits option.splits list.splits)
          have r: "vad_trace r =
              [Created MemoryInfo, Created (InputValue 0), Malloc CombinedState,
               Created (InputValue 1), Created (InputValue 2),
               Created (OutputValue 0), Created (OutputValue 1)]
              @ dropped_status api 0 oa @ dropped_status api 1 ob
              @ [Released (OutputValue 0), Released (OutputValue 1), Free CombinedState,
                 Released (InputValue 0), Released (InputValue 1), Released (InputValue 2),
                 Released MemoryInfo]"
            using assms t0 Inr t1 t2 run slots ex ab res tr
            by (auto simp: vad_body_def Let_def fault_bind_simps vad_cleanup_trace
                output_events_pair)
          show ?thesis
            unfolding r
            by (cases "GetTensorMutableData api oa"; cases "GetTensorMutableData api ob")
               (auto simp: dropped_status_def getter_status_def)
        qed
      qed
    qed
  qed
qed

lemma onnx_run_vad_state_tensor_failure:
  assumes "g_ort g = Some api" "CreateCpuMemoryInfo api = Inr mi"
    and "malloc_ok hp 0" "128 \<le> length h" "128 \<le> length c"
    and "CreateTensorWithDataAsOrtValue api mi (vad_audio_tensor audio audio_len) = None"
    and "CreateTensorWithDataAsOrtValue api mi (vad_state_tensor (take 128 h @ take 128 c))
           = Some st"
  shows "onnx_run_vad hp g (Some s) audio audio_len (Some h) (Some c) prob_out h_out c_out =
     Inr \<lparr>vad_ret = - 1,
          vad_globals = set_error (case GetErrorMessage st of Some msg \<Rightarrow> msg
                                   | None \<Rightarrow> ''Unknown ONNX error'') g,
          vad_prob_out = prob_out, vad_h_out = h_out, vad_c_out = c_out,
          vad_trace = [Created MemoryInfo, Created (InputValue 0), Malloc CombinedState,
                       Created StatusObj, Free CombinedState, Released StatusObj,
                       Released (InputValue 0), Released MemoryInfo]\<rparr>"
proof -
  have cs: "combine_state hp (Some h) (Some c) = Inr (take 128 h @ take 128 c)"
    using assms(3-5) by (rule combine_state_eq)
  show ?thesis
    using assms(1,2,6,7) cs
    by (simp add: onnx_run_vad_def vad_body_def Let_def fault_bind_simps
        set_ort_error_initialized vad_cleanup_def upt_0_3)
qed

lemma onnx_run_vad_run_failure:
  assumes "g_ort g = Some api" "CreateCpuMemoryInfo api = Inr mi"
    and "malloc_ok hp 0" "128 \<le> length h" "128 \<le> length c"
    and "CreateTensorWithDataAsOrtValue api mi (vad_audio_tensor audio audio_len) = None"
    and "CreateTensorWithDataAsOrtValue api mi (vad_state_tensor (take 128 h @ take 128 c)) = None"
    and "CreateTensorWithDataAsOrtValue api mi vad_sr_tensor = None"
    and "Run api (session s) [Some ''input'', Some ''state'', Some ''sr'']
           [vad_audio_tensor audio audio_len, vad_state_tensor (take 128 h @ take 128 c),
            vad_sr_tensor]
           [Some ''output'', Some ''stateN''] = Inl st"
  shows "onnx_run_vad hp g (Some s) audio audio_len (Some h) (Some c) prob_out h_out c_out =
     Inr \<lparr>vad_ret = - 1,
          vad_globals = set_error (case GetErrorMessage st of Some msg \<Rightarrow> msg
                                   | None \<Rightarrow> ''Unknown ONNX error'') g,
          vad_prob_out = prob_out, vad_h_out = h_out, vad_c_out = c_out,
          vad_trace = [Created MemoryInfo, Created (InputValue 0), Malloc CombinedState,
                       Created (InputValue 1), Created (InputValue 2),
                       Created StatusObj, Free CombinedState, Released StatusObj,
                       Released (InputValue 0), Released (InputValue 1), Released (InputValue 2),
                       Released MemoryInfo]\<rparr>"
proof -
  have cs: "combine_state hp (Some h) (Some c) = Inr (take 128 h @ take 128 c)"
    using assms(3-5) by (rule combine_state_eq)
  show ?thesis
    using assms(1,2,6-9) cs
    by (simp add: onnx_run_vad_def vad_body_def Let_def fault_bind_simps
        set_ort_error_initialized vad_cleanup_def upt_0_3)
qed

lemma onnx_run_vad_after_run:
  assumes "g_ort g = Some api" "CreateCpuMemoryInfo api = Inr mi"
    and "malloc_ok hp 0" "128 \<le> length h" "128 \<le> length c"
    and "CreateTensorWithDataAsOrtValue api mi (vad_audio_tensor audio audio_len) = None"
    and "CreateTensorWithDataAsOrtValue api mi (vad_state_tensor (take 128 h @ take 128 c)) = None"
    and "CreateTensorWithDataAsOrtValue api mi vad_sr_tensor = None"
    and "Run api (session s) [Some ''input'', Some ''state'', Some ''sr'']
           [vad_audio_tensor audio audio_len, vad_state_tensor (take 128 h @ take 128 c),
            vad_sr_tensor]
           [Some ''output'', Some ''stateN''] = Inr [Some out0, Some out1]"
    and "data out0 = None" "data out1 = None"
  shows "onnx_run_vad hp g (Some s) audio audio_len (Some h) (Some c) prob_out h_out c_out =
     Inr \<lparr>vad_ret = 0, vad_globals = g,
          vad_prob_out = prob_out, vad_h_out = h_out, vad_c_out = c_out,
          vad_trace = vad_success_trace api out0 out1\<rparr>"
proof -
  have cs: "combine_state hp (Some h) (Some c) = Inr (take 128 h @ take 128 c)"
    using assms(3-5) by (rule combine_state_eq)
  have ex: "vad_extract api [Some out0, Some out1] prob_out h_out c_out =
     Inr (prob_out, h_out, c_out, dropped_status api 0 out0 @ dropped_status api 1 out1)"
    using assms(10,11) by (simp add: vad_extract_def Let_def fault_bind_simps deref_simps)
  show ?thesis
    using assms(1,2,6-9) cs ex
    by (simp add: onnx_run_vad_def vad_body_def Let_def fault_bind_simps
        output_events_pair vad_cleanup_def upt_0_3 vad_success_trace_def)
qed

text \<open>
  C4, amended. On every exit path of \<open>onnx_run_vad\<close> (success, a failed tensor
  construction before or after the state buffer is allocated, a failed graph execution)
  and whatever the runtime answers, the log of the call replays without an error, so
  nothing is released twice or before it exists, and what is still live at the return
  is at most the status objects that the two calls of \<open>GetTensorMutableData\<close> returned
  and the source dropped: the 256-float state buffer, the input tensors, the output
  tensors, the memory info and the status of a failed creation or execution are each
  released exactly once. A dropped status is live at the return exactly when its getter
  returned one; with a runtime whose \<open>GetTensorMutableData\<close> does not fail, no allocation
  made inside the call survives it.
\<close>

theorem onnx_run_vad_releases_owned_resources:
  assumes "onnx_run_vad hp g sp audio audio_len h_in c_in prob_out h_out c_out = Inr r"
  shows "\<exists>live. track_all (vad_trace r) [] = Some live
      \<and> (\<forall>x\<in>set live. getter_status x)
      \<and> (\<forall>i. GetterStatus i \<in> set live \<longleftrightarrow> Created (GetterStatus i) \<in> set (vad_trace r))
      \<and> ((\<forall>api. g_ort g = Some api \<longrightarrow> (\<forall>out. GetTensorMutableData api out = None))
            \<longrightarrow> balanced (vad_trace r))"
proof (cases sp)
  case None
  then show ?thesis using assms by (auto simp: onnx_run_vad_def balanced_def)
next
  case (Some s)
  show ?thesis
  proof (cases "g_ort g")
    case None
    then show ?thesis using assms Some by (auto simp: onnx_run_vad_def balanced_def)
  next
    case api: (Some api)
    show ?thesis
    proof (cases "CreateCpuMemoryInfo api")
      case (Inl st)
      then show ?thesis
        using assms Some api
        by (auto simp: onnx_run_vad_def set_ort_error_initialized balanced_def)
    next
      case (Inr mi)
      then have "vad_body hp api g s mi audio audio_len h_in c_in prob_out h_out c_out = Inr r"
        using assms Some api by (simp add: onnx_run_vad_def)
      from vad_body_leftover [OF this api] api show ?thesis
        by (auto simp: balanced_def)
    qed
  qed
qed

theorem onnx_run_vad_releases_owned_resources_witness:
  "(\<exists>r. onnx_run_vad sample_heap (sample_globals (sample_api create_ok (echo_run 7)))
           (Some sample_session) (Some [0, 0, 0, 0]) 4
           (Some (replicate 128 1)) (Some (replicate 128 2))
           (Some 0) (Some (replicate 128 0)) (Some (replicate 128 0)) = Inr r
        \<and> vad_ret r = 0 \<and> Malloc CombinedState \<in> set (vad_trace r)
        \<and> balanced (vad_trace r))
   \<and> (\<exists>r. onnx_run_vad sample_heap
           (sample_globals (sample_api (create_refusing [2, 1, 128]) (echo_run 7)))
           (Some sample_session) (Some [0, 0, 0, 0]) 4
           (Some (replicate 128 1)) (Some (replicate 128 2))
           (Some 0) (Some (replicate 128 0)) (Some (replicate 128 0)) = Inr r
        \<and> vad_ret r = - 1 \<and> Malloc CombinedState \<in> set (vad_trace r)
        \<and> balanced (vad_trace r))
   \<and> (\<exists>r. onnx_run_vad sample_heap (sample_globals (sample_api create_ok failing_run))
           (Some sample_session) (Some [0, 0, 0, 0]) 4
           (Some (replicate 128 1)) (Some (replicate 128 2))
           (Some 0) (Some (replicate 128 0)) (Some (replicate 128 0)) = Inr r
        \<and> vad_ret r = - 1 \<and> Malloc CombinedState \<in> set (vad_trace r)
        \<and> balanced (vad_trace r))
   \<and> (\<exists>r live. onnx_run_vad sample_heap
           (sample_globals (getter_refusing (sample_api create_ok opaque_run)))
           (Some sample_session) (Some [0, 0, 0, 0]) 4
           (Some (replicate 128 1)) (Some (replicate 128 2))
           (Some 0) (Some (replicate 128 0)) (Some (replicate 128 0)) = Inr r
        \<and> vad_ret r = 0 \<and> track_all (vad_trace r) [] = Some live
        \<and> set live = {GetterStatus 0, GetterStatus 1})"
proof -
  let ?h = "replicate 128 (1::nat)" and ?c = "replicate 128 (2::nat)"
  let ?z = "replicate 128 (0::nat)"
  let ?sd = "?h @ ?c"
  let ?o0 = "\<lparr>dims = [1, 1], data = Some [7::nat]\<rparr>"
  let ?o1 = "\<lparr>dims = [2, 1, 128], data = Some ?sd\<rparr>"
  have 3: "malloc_ok sample_heap 0" by (simp add: sample_heap_def)
  have 4: "128 \<le> length ?h" and 5: "128 \<le> length ?c" by simp_all
  have 13: "\<forall>b. Some ?z = Some b \<longrightarrow> 128 \<le> length b" by simp
  have getters: "\<forall>api. g_ort (sample_globals (sample_api create run)) = Some api
                   \<longrightarrow> (\<forall>out. GetTensorMutableData api out = None)"
    for create and run :: "handle option \<Rightarrow> string option list \<Rightarrow> nat InputTensor list
                            \<Rightarrow> string option list \<Rightarrow> OrtStatus + nat OutputTensor option list"
    by (simp add: sample_globals_def sample_api_def)
  have ok: "\<exists>r. onnx_run_vad sample_heap (sample_globals (sample_api create_ok (echo_run 7)))
           (Some sample_session) (Some [0, 0, 0, 0]) 4 (Some ?h) (Some ?c)
           (Some 0) (Some ?z) (Some ?z) = Inr r
        \<and> vad_ret r = 0 \<and> Malloc CombinedState \<in> set (vad_trace r)
        \<and> balanced (vad_trace r)"
  proof -
    let ?api = "sample_api create_ok (echo_run (7::nat))"
    let ?g = "sample_globals ?api"
    have 1: "g_ort ?g = Some ?api" by (simp add: sample_globals_def)
    have 2: "CreateCpuMemoryInfo ?api = Inr 5" by (simp add: sample_api_def)
    have 6: "CreateTensorWithDataAsOrtValue ?api 5 t = None" for t
      by (simp add: sample_api_def create_ok_def)
    have 9: "Run ?api (session sample_session) [Some ''input'', Some ''state'', Some ''sr'']
             [vad_audio_tensor (Some [0, 0, 0, 0]) 4, vad_state_tensor (take 128 ?h @ take 128 ?c),
              vad_sr_tensor]
             [Some ''output'', Some ''stateN''] = Inr [Some ?o0, Some ?o1]"
      by (simp add: sample_api_def echo_run_def vad_state_tensor_def)
    have 10: "data ?o0 = Some (7 # [])" and 11: "data ?o1 = Some ?sd" and 12: "256 \<le> length ?sd"
      by simp_all
    note run = onnx_run_vad_success [OF 1 2 3 4 5 6 6 6 9 10 11 12 13 13, of "Some 0"]
    from onnx_run_vad_releases_owned_resources [OF run] getters [of create_ok "echo_run 7"] run
    show ?thesis by (auto simp: vad_success_trace_def)
  qed
  have refused: "\<exists>r. onnx_run_vad sample_heap
           (sample_globals (sample_api (create_refusing [2, 1, 128]) (echo_run 7)))
           (Some sample_session) (Some [0, 0, 0, 0]) 4 (Some ?h) (Some ?c)
           (Some 0) (Some ?z) (Some ?z) = Inr r
        \<and> vad_ret r = - 1 \<and> Malloc CombinedState \<in> set (vad_trace r)
        \<and> balanced (vad_trace r)"
  proof -
    let ?api = "sample_api (create_refusing [2, 1, 128]) (echo_run (7::nat))"
    let ?g = "sample_globals ?api"
    have 1: "g_ort ?g = Some ?api" by (simp add: sample_globals_def)
    have 2: "CreateCpuMemoryInfo ?api = Inr 5" by (simp add: sample_api_def)
    have 6: "CreateTensorWithDataAsOrtValue ?api 5 (vad_audio_tensor (Some [0, 0, 0, 0]) 4) = None"
      by (simp add: sample_api_def create_refusing_def vad_audio_tensor_def)
    have 7: "CreateTensorWithDataAsOrtValue ?api 5 (vad_state_tensor (take 128 ?h @ take 128 ?c))
               = Some (OrtStatus (Some ''tensor refused''))"
      by (simp add: sample_api_def create_refusing_def vad_state_tensor_def)
    note run = onnx_run_vad_state_tensor_failure
                 [OF 1 2 3 4 5 6 7, of sample_session "Some 0" "Some ?z" "Some ?z"]
    from onnx_run_vad_releases_owned_resources [OF run]
         getters [of "create_refusing [2, 1, 128]" "echo_run 7"] run
    show ?thesis by auto
  qed
  have failed: "\<exists>r. onnx_run_vad sample_heap (sample_globals (sample_api create_ok failing_run))
           (Some sample_session) (Some [0, 0, 0, 0]) 4 (Some ?h) (Some ?c)
           (Some 0) (Some ?z) (Some ?z) = Inr r
        \<and> vad_ret r = - 1 \<and> Malloc CombinedState \<in> set (vad_trace r)
        \<and> balanced (vad_trace r)"
  proof -
    let ?api = "sample_api create_ok (failing_run :: _ \<Rightarrow> _ \<Rightarrow> nat InputTensor list \<Rightarrow> _)"
    let ?g = "sample_globals ?api"
    have 1: "g_ort ?g = Some ?api" by (simp add: sample_globals_def)
    have 2: "CreateCpuMemoryInfo ?api = Inr 5" by (simp add: sample_api_def)
    have 6: "CreateTensorWithDataAsOrtValue ?api 5 t = None" for t
      by (simp add: sample_api_def create_ok_def)
    have 9: "Run ?api (session sample_session) [Some ''input'', Some ''state'', Some ''sr'']
             [vad_audio_tensor (Some [0, 0, 0, 0]) 4, vad_state_tensor (take 128 ?h @ take 128 ?c),
              vad_sr_tensor]
             [Some ''output'', Some ''stateN''] = Inl (OrtStatus (Some ''run failed''))"
      by (simp add: sample_api_def failing_run_def)
    note run = onnx_run_vad_run_failure [OF 1 2 3 4 5 6 6 6 9, of "Some 0" "Some ?z" "Some ?z"]
    from onnx_run_vad_releases_owned_resources [OF run] getters [of create_ok failing_run] run
    show ?thesis by auto
  qed
  have dropped: "\<exists>r live. onnx_run_vad sample_heap
           (sample_globals (getter_refusing (sample_api create_ok opaque_run)))
           (Some sample_session) (Some [0, 0, 0, 0]) 4 (Some ?h) (Some ?c)
           (Some 0) (Some ?z) (Some ?z) = Inr r
        \<and> vad_ret r = 0 \<and> track_all (vad_trace r) [] = Some live
        \<and> set live = {GetterStatus 0, GetterStatus 1}"
  proof -
    let ?api = "getter_refusing (sample_api create_ok (opaque_run :: _ \<Rightarrow> _ \<Rightarrow> nat InputTensor list \<Rightarrow> _))"
    let ?g = "sample_globals ?api"
    let ?n = "\<lparr>dims = [], data = (None :: nat list option)\<rparr>"
    have 1: "g_ort ?g = Some ?api" by (simp add: sample_globals_def)
    have 2: "CreateCpuMemoryInfo ?api = Inr 5" by (simp add: sample_api_def getter_refusing_def)
    have 6: "CreateTensorWithDataAsOrtValue ?api 5 t = None" for t
      by (simp add: sample_api_def create_ok_def getter_refusing_def)
    have 9: "Run ?api (session sample_session) [Some ''input'', Some ''state'', Some ''sr'']
             [vad_audio_tensor (Some [0, 0, 0, 0]) 4, vad_state_tensor (take 128 ?h @ take 128 ?c),
              vad_sr_tensor]
             [Some ''output'', Some ''stateN''] = Inr [Some ?n, Some ?n]"
      by (simp add: sample_api_def opaque_run_def getter_refusing_def)
    have 10: "data ?n = None" by simp
    note run = onnx_run_vad_after_run [OF 1 2 3 4 5 6 6 6 9 10 10, of "Some 0" "Some ?z" "Some ?z"]
    have g: "GetTensorMutableData ?api out \<noteq> None" for out
      by (simp add: getter_refusing_def)
    from onnx_run_vad_releases_owned_resources [OF run] run g
    show ?thesis
      by (auto simp: vad_success_trace_def dropped_status_def split: option.splits)
  qed
  show ?thesis using ok refused failed dropped by blast
qed

text \<open>
  C4 as stated lets no allocation made inside the call survive it. With a runtime whose
  \<open>GetTensorMutableData\<close> fails on the two output values (they are no tensors), the call
  returns 0 and the two status objects of the getters are never released: the log does
  not balance.
\<close>

theorem onnx_run_vad_dropped_getter_status_survives:
  "onnx_run_vad sample_heap
     (sample_globals (getter_refusing (sample_api create_ok opaque_run)))
     (Some sample_session) (Some [0, 0, 0, 0]) 4
     (Some (replicate 128 1)) (Some (replicate 128 2))
     (Some 0) (Some (replicate 128 0)) (Some (replicate 128 0))
     = Inr \<lparr>vad_ret = 0,
            vad_globals = sample_globals (getter_refusing (sample_api create_ok opaque_run)),
            vad_prob_out = Some 0, vad_h_out = Some (replicate 128 0),
            vad_c_out = Some (replicate 128 0),
            vad_trace =
              [Created MemoryInfo, Created (InputValue 0), Malloc CombinedState,
               Created (InputValue 1), Created (InputValue 2),
               Created (OutputValue 0), Created (OutputValue 1),
               Created (GetterStatus 0), Created (GetterStatus 1),
               Released (OutputValue 0), Released (OutputValue 1), Free CombinedState,
               Released (InputValue 0), Released (InputValue 1), Released (InputValue 2),
               Released MemoryInfo]\<rparr>
   \<and> \<not> balanced
        [Created MemoryInfo, Created (InputValue 0), Malloc CombinedState,
         Created (InputValue 1), Created (InputValue 2),
         Created (OutputValue 0), Created (OutputValue 1),
         Created (GetterStatus 0), Created (GetterStatus 1),
         Released (OutputValue 0), Released (OutputValue 1), Free CombinedState,
         Released (InputValue 0), Released (InputValue 1), Released (InputValue 2),
         Released MemoryInfo]
   \<and> track_all
        [Created MemoryInfo, Created (InputValue 0), Malloc CombinedState,
         Created (InputValue 1), Created (InputValue 2),
         Created (OutputValue 0), Created (OutputValue 1),
         Created (GetterStatus 0), Created (GetterStatus 1),
         Released (OutputValue 0), Released (OutputValue 1), Free CombinedState,
         Released (InputValue 0), Released (InputValue 1), Released (InputValue 2),
         Released MemoryInfo] []
       = Some [GetterStatus 1, GetterStatus 0]"
proof -
  let ?h = "replicate 128 (1::nat)" and ?c = "replicate 128 (2::nat)"
  let ?z = "replicate 128 (0::nat)"
  let ?api = "getter_refusing (sample_api create_ok (opaque_run :: _ \<Rightarrow> _ \<Rightarrow> nat InputTensor list \<Rightarrow> _))"
  let ?g = "sample_globals ?api"
  let ?n = "\<lparr>dims = [], data = (None :: nat list option)\<rparr>"
  have 1: "g_ort ?g = Some ?api" by (simp add: sample_globals_def)
  have 2: "CreateCpuMemoryInfo ?api = Inr 5" by (simp add: sample_api_def getter_refusing_def)
  have 3: "malloc_ok sample_heap 0" by (simp add: sample_heap_def)
  have 4: "128 \<le> length ?h" and 5: "128 \<le> length ?c" by simp_all
  have 6: "CreateTensorWithDataAsOrtValue ?api 5 t = None" for t
    by (simp add: sample_api_def create_ok_def getter_refusing_def)
  have 9: "Run ?api (session sample_session) [Some ''input'', Some ''state'', Some ''sr'']
           [vad_audio_tensor (Some [0, 0, 0, 0]) 4, vad_state_tensor (take 128 ?h @ take 128 ?c),
            vad_sr_tensor]
           [Some ''output'', Some ''stateN''] = Inr [Some ?n, Some ?n]"
    by (simp add: sample_api_def opaque_run_def getter_refusing_def)
  have 10: "data ?n = None" by simp
  have log: "vad_success_trace ?api ?n ?n =
      [Created MemoryInfo, Created (InputValue 0), Malloc CombinedState,
       Created (InputValue 1), Created (InputValue 2),
       Created (OutputValue 0), Created (OutputValue 1),
       Created (GetterStatus 0), Created (GetterStatus 1),
       Released (OutputValue 0), Released (OutputValue 1), Free CombinedState,
       Released (InputValue 0), Released (InputValue 1), Released (InputValue 2),
       Released MemoryInfo]"
    by (simp add: vad_success_trace_def dropped_status_def getter_refusing_def)
  show ?thesis
    using onnx_run_vad_after_run [OF 1 2 3 4 5 6 6 6 9 10 10, of "Some 0" "Some ?z" "Some ?z"] log
    by (simp add: balanced_def)
qed

section \<open>onnx_run_speaker\<close>

lemma bytes_512: "unat (512 * sizeof_float) = 512 * 4"
  by (simp add: sizeof_float_def)

lemma onnx_run_speaker_after_run:
  assumes "g_ort g = Some api" "CreateCpuMemoryInfo api = Inr mi"
    and "CreateTensorWithDataAsOrtValue api mi (speaker_input_tensor fbank frames) = None"
    and "input_names s = Some (iname # inames)" "output_names s = Some (oname # onames)"
    and "Run api (session s) [iname] [speaker_input_tensor fbank frames] [oname]
           = Inr (Some out # outs)"
  shows "onnx_run_speaker g (Some s) fbank frames embedding_out =
     fault_bind (speaker_extract out embedding_out) (\<lambda>(result, embedding).
       Inr \<lparr>run_ret = result, run_globals = g, run_out = embedding,
            run_trace = [Created MemoryInfo, Created (InputValue 0), Created (OutputValue 0)]
                          @ dropped_status api 0 out
                          @ [Released (OutputValue 0), Released (InputValue 0),
                             Released MemoryInfo]\<rparr>)"
  using assms
  by (cases "speaker_extract out embedding_out")
     (auto simp: onnx_run_speaker_def Let_def fault_bind_simps first_name_def first_output_def)

text \<open>
  C5. For every successful graph execution in \<open>onnx_run_speaker\<close> with a non-null
  \<open>embedding_out\<close> and a non-null output data pointer (both of at least 512 floats), the
  call copies exactly 512 floats of the output data into \<open>embedding_out\<close> and returns 0.
  The dimensions that the runtime reports for the output tensor are not consulted: they
  are arbitrary in the statement, and replacing them changes nothing.
\<close>

theorem onnx_run_speaker_copies_512_unchecked:
  assumes "g_ort g = Some api" "CreateCpuMemoryInfo api = Inr mi"
    and "CreateTensorWithDataAsOrtValue api mi (speaker_input_tensor fbank frames) = None"
    and "input_names s = Some (iname # inames)" "output_names s = Some (oname # onames)"
    and "Run api (session s) [iname] [speaker_input_tensor fbank frames] [oname]
           = Inr (Some out # outs)"
    and "data out = Some output_data" "512 \<le> length output_data"
    and "512 \<le> length buf"
  shows "\<exists>r. onnx_run_speaker g (Some s) fbank frames (Some buf) = Inr r
      \<and> run_ret r = 0
      \<and> run_out r = Some (take 512 output_data @ drop 512 buf)
      \<and> run_globals r = g
      \<and> speaker_extract (out\<lparr>dims := ds\<rparr>) (Some buf) = speaker_extract out (Some buf)"
proof -
  have "memcpy buf 0 output_data 0 (512 * sizeof_float)
      = Inr (take 0 buf @ take 512 (drop 0 output_data) @ drop (0 + 512) buf)"
    using assms(8,9) by (intro memcpy_in_bounds [OF bytes_512]) simp_all
  then have "speaker_extract out (Some buf) = Inr (0, Some (take 512 output_data @ drop 512 buf))"
    using assms(7) by (simp add: speaker_extract_def fault_bind_simps)
  moreover have "speaker_extract (out\<lparr>dims := ds\<rparr>) (Some buf) = speaker_extract out (Some buf)"
    by (simp add: speaker_extract_def)
  ultimately show ?thesis
    using onnx_run_speaker_after_run [OF assms(1-6), of "Some buf"]
    by (simp add: fault_bind_simps)
qed

theorem onnx_run_speaker_copies_512_unchecked_witness:
  "\<exists>r. onnx_run_speaker
          (sample_globals (sample_api create_ok
             (const_run \<lparr>dims = [1, 1, 600], data = Some (replicate 600 (3::nat))\<rparr>)))
          (Some sample_session) (Some (replicate 48 1)) 2 (Some (replicate 512 0)) = Inr r
      \<and> run_ret r = 0 \<and> run_out r = Some (replicate 512 3)"
proof -
  let ?out = "\<lparr>dims = [1, 1, 600], data = Some (replicate 600 (3::nat))\<rparr>"
  let ?api = "sample_api create_ok (const_run ?out)"
  let ?g = "sample_globals ?api"
  have 1: "g_ort ?g = Some ?api" by (simp add: sample_globals_def)
  have 2: "CreateCpuMemoryInfo ?api = Inr 5" by (simp add: sample_api_def)
  have 3: "CreateTensorWithDataAsOrtValue ?api 5 (speaker_input_tensor (Some (replicate 48 1)) 2) = None"
    by (simp add: sample_api_def create_ok_def)
  have 4: "input_names sample_session = Some (Some ''in'' # [])"
    and 5: "output_names sample_session = Some (Some ''out'' # [])"
    by (simp_all add: sample_session_def)
  have 6: "Run ?api (session sample_session) [Some ''in'']
             [speaker_input_tensor (Some (replicate 48 1)) 2] [Some ''out''] = Inr (Some ?out # [])"
    by (simp add: sample_api_def const_run_def)
  have 7: "data ?out = Some (replicate 600 3)" by simp
  have 8: "512 \<le> length (replicate 600 (3::nat))" and 9: "512 \<le> length (replicate 512 (0::nat))"
    by simp_all
  from onnx_run_speaker_copies_512_unchecked [OF 1 2 3 4 5 6 7 8 9]
  show ?thesis by auto
qed

text \<open>
  C10. If the graph execution of \<open>onnx_run_speaker\<close> succeeds but \<open>embedding_out\<close> is
  \<open>NULL\<close>, or the runtime reports a \<open>NULL\<close> output data pointer, the call returns \<open>-1\<close>
  and leaves the last-error string as it was. \<open>onnx_run_vad\<close> with all three output
  pointers \<open>NULL\<close> returns 0 when its graph execution succeeds.
\<close>

theorem onnx_run_speaker_null_output_fails_silently:
  assumes "g_ort (g :: 'a globals) = Some api" "CreateCpuMemoryInfo api = Inr mi"
    and "CreateTensorWithDataAsOrtValue api mi (speaker_input_tensor fbank frames) = None"
    and "input_names s = Some (iname # inames)" "output_names s = Some (oname # onames)"
    and "Run api (session s) [iname] [speaker_input_tensor fbank frames] [oname]
           = Inr (Some out # outs)"
    and "embedding_out = None \<or> data out = None"
    and "g_ort (gv :: 'a globals) = Some apiv" "CreateCpuMemoryInfo apiv = Inr miv"
    and "malloc_ok hp 0" "128 \<le> length h" "128 \<le> length c"
    and "CreateTensorWithDataAsOrtValue apiv miv (vad_audio_tensor audio audio_len) = None"
    and "CreateTensorWithDataAsOrtValue apiv miv (vad_state_tensor (take 128 h @ take 128 c))
           = None"
    and "CreateTensorWithDataAsOrtValue apiv miv vad_sr_tensor = None"
    and "Run apiv (session sv) [Some ''input'', Some ''state'', Some ''sr'']
           [vad_audio_tensor audio audio_len, vad_state_tensor (take 128 h @ take 128 c),
            vad_sr_tensor]
           [Some ''output'', Some ''stateN''] = Inr [Some out0, Some out1]"
    and "data out0 = Some (x # xs)" "data out1 = Some sd" "256 \<le> length sd"
  shows "(\<exists>r. onnx_run_speaker g (Some s) fbank frames embedding_out = Inr r
           \<and> run_ret r = - 1
           \<and> g_error_msg (run_globals r) = g_error_msg g
           \<and> run_out r = embedding_out)
      \<and> (\<exists>r. onnx_run_vad hp gv (Some sv) audio audio_len (Some h) (Some c) None None None
                 = Inr r
           \<and> vad_ret r = 0
           \<and> g_error_msg (vad_globals r) = g_error_msg gv)"
proof -
  have "speaker_extract out embedding_out = Inr (- 1, embedding_out)"
    using assms(7) by (auto simp: speaker_extract_def split: option.splits)
  then have sp: "\<exists>r. onnx_run_speaker g (Some s) fbank frames embedding_out = Inr r
           \<and> run_ret r = - 1
           \<and> g_error_msg (run_globals r) = g_error_msg g
           \<and> run_out r = embedding_out"
    using onnx_run_speaker_after_run [OF assms(1-6), of embedding_out]
    by (simp add: fault_bind_simps)
  have none: "\<forall>b. (None :: 'a list option) = Some b \<longrightarrow> 128 \<le> length b" by simp
  have vad: "\<exists>r. onnx_run_vad hp gv (Some sv) audio audio_len (Some h) (Some c) None None None
                 = Inr r
           \<and> vad_ret r = 0
           \<and> g_error_msg (vad_globals r) = g_error_msg gv"
    using onnx_run_vad_success [OF assms(8-19) none none, of None] by simp
  show ?thesis using sp vad by blast
qed

theorem onnx_run_speaker_null_output_fails_silently_witness:
  "(\<exists>r. onnx_run_speaker
           (sample_globals (sample_api create_ok
              (const_run \<lparr>dims = [1, 1, 512], data = Some (replicate 512 (3::nat))\<rparr>)))
           (Some sample_session) (Some (replicate 48 1)) 2 None = Inr r
       \<and> run_ret r = - 1 \<and> g_error_msg (run_globals r) = [] \<and> run_out r = None)
   \<and> (\<exists>r. onnx_run_vad sample_heap (sample_globals (sample_api create_ok (echo_run 7)))
           (Some sample_session) (Some [0, 0, 0, 0]) 4
           (Some (replicate 128 1)) (Some (replicate 128 2)) None None None = Inr r
       \<and> vad_ret r = 0 \<and> g_error_msg (vad_globals r) = [])"
proof -
  let ?out = "\<lparr>dims = [1, 1, 512], data = Some (replicate 512 (3::nat))\<rparr>"
  let ?api = "sample_api create_ok (const_run ?out)"
  let ?g = "sample_globals ?api"
  let ?apiv = "sample_api create_ok (echo_run (7::nat))"
  let ?gv = "sample_globals ?apiv"
  let ?h = "replicate 128 (1::nat)" and ?c = "replicate 128 (2::nat)"
  let ?sd = "?h @ ?c"
  let ?o0 = "\<lparr>dims = [1, 1], data = Some [7::nat]\<rparr>"
  let ?o1 = "\<lparr>dims = [2, 1, 128], data = Some ?sd\<rparr>"
  have 1: "g_ort ?g = Some ?api" by (simp add: sample_globals_def)
  have 2: "CreateCpuMemoryInfo ?api = Inr 5" by (simp add: sample_api_def)
  have 3: "CreateTensorWithDataAsOrtValue ?api 5 (speaker_input_tensor (Some (replicate 48 1)) 2) = None"
    by (simp add: sample_api_def create_ok_def)
  have 4: "input_names sample_session = Some (Some ''in'' # [])"
    and 5: "output_names sample_session = Some (Some ''out'' # [])"
    by (simp_all add: sample_session_def)
  have 6: "Run ?api (session sample_session) [Some ''in'']
             [speaker_input_tensor (Some (replicate 48 1)) 2] [Some ''out''] = Inr (Some ?out # [])"
    by (simp add: sample_api_def const_run_def)
  have 7: "(None :: nat list option) = None \<or> data ?out = None" by simp
  have 8: "g_ort ?gv = Some ?apiv" by (simp add: sample_globals_def)
  have 9: "CreateCpuMemoryInfo ?apiv = Inr 5" by (simp add: sample_api_def)
  have 10: "malloc_ok sample_heap 0" by (simp add: sample_heap_def)
  have 11: "128 \<le> length ?h" and 12: "128 \<le> length ?c" by simp_all
  have 13: "CreateTensorWithDataAsOrtValue ?apiv 5 t = None" for t
    by (simp add: sample_api_def create_ok_def)
  have 16: "Run ?apiv (session sample_session) [Some ''input'', Some ''state'', Some ''sr'']
           [vad_audio_tensor (Some [0, 0, 0, 0]) 4, vad_state_tensor (take 128 ?h @ take 128 ?c),
            vad_sr_tensor]
           [Some ''output'', Some ''stateN''] = Inr [Some ?o0, Some ?o1]"
    by (simp add: sample_api_def echo_run_def vad_state_tensor_def)
  have 17: "data ?o0 = Some (7 # [])" and 18: "data ?o1 = Some ?sd" and 19: "256 \<le> length ?sd"
    by simp_all
  from onnx_run_speaker_null_output_fails_silently
         [OF 1 2 3 4 5 6 7 8 9 10 11 12 13 13 13 16 17 18 19]
  show ?thesis by (simp add: sample_globals_def)
qed

section \<open>onnx_run_asr\<close>

lemma output_size_loop_prod:
  "output_size_loop ds acc = acc * word_of_int (prod_list ds)"
  by (induction ds arbitrary: acc) (simp_all add: mult.assoc)

lemma int_of_size_small:
  assumes "unat n < 2 ^ 31"
  shows "int_of_size n = int (unat n)"
proof -
  have "int (unat n) < int (2 ^ 31)" using assms by (simp only: of_nat_less_iff)
  then have lt: "uint n < 2 ^ 31" by (simp only: uint_nat of_nat_power of_nat_numeral)
  have "(0::int) \<le> uint n" by simp
  moreover have "- (2 ^ 31) \<le> (0::int)" by simp
  ultimately have ge: "- (2 ^ 31) \<le> uint n" by (rule order_trans [rotated])
  have "signed_take_bit 31 (uint n) = uint n"
    using ge lt by (rule signed_take_bit_int_eq_self)
  moreover have "sint (ucast n :: 32 word) = signed_take_bit (LENGTH(32) - Suc 0) (uint n)"
    by (rule signed_ucast_eq)
  ultimately have "sint (ucast n :: 32 word) = uint n" by simp
  then show ?thesis by (simp only: int_of_size_def uint_nat)
qed

lemma unat_output_size:
  assumes "0 \<le> prod_list ds" "prod_list ds < 2 ^ 31"
  shows "unat (output_size_loop ds 1) = nat (prod_list ds)"
proof -
  have "output_size_loop ds 1 = word_of_int (prod_list ds)"
    by (simp add: output_size_loop_prod)
  moreover have "unat (word_of_int (prod_list ds) :: 64 word) = nat (prod_list ds)"
  proof -
    have "prod_list ds < 2 ^ 64" using assms(2) by simp
    then have "take_bit 64 (prod_list ds) = prod_list ds"
      using assms(1) by (simp add: take_bit_int_eq_self)
    then show ?thesis by (simp add: unat_eq_nat_uint uint_word_of_int_eq)
  qed
  ultimately show ?thesis by simp
qed

lemma onnx_run_asr_after_run:
  assumes "g_ort g = Some api" "CreateCpuMemoryInfo api = Inr mi"
    and "CreateTensorWithDataAsOrtValue api mi (asr_input_tensor mel_lfr frames features) = None"
    and "input_names s = Some (iname # inames)" "output_names s = Some (oname # onames)"
    and "Run api (session s) [iname] [asr_input_tensor mel_lfr frames features] [oname]
           = Inr (Some out # outs)"
  shows "onnx_run_asr hp g (Some s) mel_lfr frames features logits_out max_output_size =
     fault_bind (asr_extract hp api g out logits_out max_output_size) (\<lambda>(result, g', logits, tr').
       Inr \<lparr>run_ret = result, run_globals = g', run_out = logits,
            run_trace = [Created MemoryInfo, Created (InputValue 0), Created (OutputValue 0)]
                          @ tr' @ [Released (OutputValue 0), Released (InputValue 0),
                                   Released MemoryInfo]\<rparr>)"
  using assms
  by (cases "asr_extract hp api g out logits_out max_output_size")
     (auto simp: onnx_run_asr_def Let_def fault_bind_simps first_name_def first_output_def)

text \<open>
  Inside the range of \<open>int\<close> the size check of \<open>onnx_run_asr\<close> does what it is meant to do.
\<close>

lemma onnx_run_asr_in_int_range:
  assumes "g_ort g = Some api" "CreateCpuMemoryInfo api = Inr mi"
    and "CreateTensorWithDataAsOrtValue api mi (asr_input_tensor mel_lfr frames features) = None"
    and "input_names s = Some (iname # inames)" "output_names s = Some (oname # onames)"
    and "Run api (session s) [iname] [asr_input_tensor mel_lfr frames features] [oname]
           = Inr (Some out # outs)"
    and "malloc_ok hp 0"
    and "0 \<le> prod_list (dims out)" "prod_list (dims out) < 2 ^ 31"
    and "data out = Some output_data" "nat (prod_list (dims out)) \<le> length output_data"
    and "nat max_output_size \<le> length buf"
  shows "\<exists>r. onnx_run_asr hp g (Some s) mel_lfr frames features (Some buf) max_output_size = Inr r
      \<and> (if prod_list (dims out) \<le> max_output_size
          then run_ret r = prod_list (dims out)
             \<and> run_out r = Some (take (nat (prod_list (dims out))) output_data
                                  @ drop (nat (prod_list (dims out))) buf)
             \<and> run_globals r = g
          else run_ret r = - 1
             \<and> run_out r = Some buf
             \<and> run_globals r = set_error ''Output buffer too small'' g)"
proof -
  let ?P = "prod_list (dims out)"
  let ?n = "output_size_loop (dims out) 1"
  have un: "unat ?n = nat ?P" using assms(8,9) by (rule unat_output_size)
  have "nat ?P < 2 ^ 31" using assms(8,9) by (simp add: nat_less_iff)
  then have small: "unat ?n < 2 ^ 31" using un by simp
  have cast: "int_of_size ?n = ?P" using int_of_size_small [OF small] un assms(8) by simp
  have "unat ?n * 4 < 2 ^ 64" using small by simp
  then have nb: "unat (?n * sizeof_float) = nat ?P * 4"
    using unat_times_sizeof [of ?n] un by simp
  show ?thesis
  proof (cases "?P \<le> max_output_size")
    case True
    then have "nat ?P \<le> length buf" using assms(12) by linarith
    then have "memcpy buf 0 output_data 0 (?n * sizeof_float)
        = Inr (take 0 buf @ take (nat ?P) (drop 0 output_data) @ drop (0 + nat ?P) buf)"
      using assms(11) by (intro memcpy_in_bounds [OF nb]) simp_all
    then have "asr_extract hp api g out (Some buf) max_output_size =
        Inr (?P, g, Some (take (nat ?P) output_data @ drop (nat ?P) buf),
             [Created TypeInfo, Malloc DimsArray, Free DimsArray, Released TypeInfo]
               @ dropped_status api 0 out)"
      using True cast assms(7,10) by (simp add: asr_extract_def Let_def fault_bind_simps)
    then show ?thesis
      using onnx_run_asr_after_run [OF assms(1-6), of hp "Some buf" max_output_size] True
      by (simp add: fault_bind_simps)
  next
    case False
    then have "asr_extract hp api g out (Some buf) max_output_size =
        Inr (- 1, set_error ''Output buffer too small'' g, Some buf,
             [Created TypeInfo, Malloc DimsArray, Free DimsArray, Released TypeInfo])"
      using cast assms(7) by (simp add: asr_extract_def Let_def)
    then show ?thesis
      using onnx_run_asr_after_run [OF assms(1-6), of hp "Some buf" max_output_size] False
      by (simp add: fault_bind_simps)
  qed
qed

text \<open>
  C2. The size check of \<open>onnx_run_asr\<close> compares \<open>(int)output_size\<close>, not \<open>output_size\<close>,
  with \<open>max_output_size\<close>. For an output tensor of shape \<open>(1, 32768, 65536)\<close>, whose
  \<open>2^31\<close> elements exceed \<open>max_output_size = 1000\<close>, the cast yields \<open>-2147483648\<close> and the
  check passes: \<open>memcpy\<close> is asked to write \<open>2^31\<close> floats into the caller's buffer of 1000
  (the fault \<open>OutOfBounds\<close>), and with a \<open>NULL\<close> \<open>logits_out\<close> the call returns
  \<open>-2147483648\<close> with no error recorded, where the claim and the header of the library
  promise \<open>-1\<close> and the error "Output buffer too small". The same overrun happens with
  \<open>max_output_size = 2147483647\<close>, one less than the product.
\<close>

theorem onnx_run_asr_size_check_truncates:
  "onnx_run_asr sample_heap
     (sample_globals (sample_api create_ok
        (const_run \<lparr>dims = [1, 32768, 65536], data = Some (replicate 2147483648 (3::nat))\<rparr>)))
     (Some sample_session) (Some (replicate 560 1)) 1 560 (Some (replicate 1000 0)) 1000
     = Inl OutOfBounds
   \<and> (\<exists>r. onnx_run_asr sample_heap
        (sample_globals (sample_api create_ok
           (const_run \<lparr>dims = [1, 32768, 65536], data = Some (replicate 2147483648 (3::nat))\<rparr>)))
        (Some sample_session) (Some (replicate 560 1)) 1 560 None 1000 = Inr r
      \<and> run_ret r = - 2147483648 \<and> g_error_msg (run_globals r) = [])
   \<and> onnx_run_asr sample_heap
       (sample_globals (sample_api create_ok
          (const_run \<lparr>dims = [1, 32768, 65536], data = Some (replicate 2147483648 (3::nat))\<rparr>)))
       (Some sample_session) (Some (replicate 560 1)) 1 560
       (Some (replicate 2147483647 0)) 2147483647
       = Inl OutOfBounds"
proof -
  let ?out = "\<lparr>dims = [1, 32768, 65536], data = Some (replicate 2147483648 (3::nat))\<rparr>"
  let ?api = "sample_api create_ok (const_run ?out)"
  let ?g = "sample_globals ?api"
  let ?mel = "Some (replicate 560 (1::nat))"
  have 1: "g_ort ?g = Some ?api" by (simp add: sample_globals_def)
  have 2: "CreateCpuMemoryInfo ?api = Inr 5" by (simp add: sample_api_def)
  have 3: "CreateTensorWithDataAsOrtValue ?api 5 (asr_input_tensor ?mel 1 560) = None"
    by (simp add: sample_api_def create_ok_def)
  have 4: "input_names sample_session = Some (Some ''in'' # [])"
    and 5: "output_names sample_session = Some (Some ''out'' # [])"
    by (simp_all add: sample_session_def)
  have 6: "Run ?api (session sample_session) [Some ''in'']
             [asr_input_tensor ?mel 1 560] [Some ''out''] = Inr (Some ?out # [])"
    by (simp add: sample_api_def const_run_def)
  have size: "output_size_loop (dims ?out) 1 = 2147483648" by simp
  have cast: "int_of_size 2147483648 = - 2147483648" by (simp add: int_of_size_def)
  have count: "unat ((2147483648 :: 64 word) * sizeof_float) div unat sizeof_float = 2147483648"
    by (simp add: sizeof_float_def)
  have over: "memcpy (replicate 1000 (0::nat)) 0 (replicate 2147483648 3) 0
                (2147483648 * sizeof_float) = Inl OutOfBounds"
    using count by (simp add: memcpy_def Let_def)
  have ok: "malloc_ok sample_heap 0" by (simp add: sample_heap_def)
  have e1: "asr_extract sample_heap ?api ?g ?out (Some (replicate 1000 0)) 1000
              = Inl OutOfBounds"
    using size cast over ok by (simp add: asr_extract_def Let_def fault_bind_simps)
  have e2: "asr_extract sample_heap ?api ?g ?out None 1000 =
      Inr (- 2147483648, ?g, None,
           [Created TypeInfo, Malloc DimsArray, Free DimsArray, Released TypeInfo])"
    using size cast ok
    by (simp add: asr_extract_def Let_def fault_bind_simps dropped_status_def sample_api_def)
  have r1: "onnx_run_asr sample_heap ?g (Some sample_session) ?mel 1 560
              (Some (replicate 1000 0)) 1000 = Inl OutOfBounds"
    using onnx_run_asr_after_run [OF 1 2 3 4 5 6, of sample_heap "Some (replicate 1000 0)" 1000] e1
    by (simp add: fault_bind_simps)
  have r2: "\<exists>r. onnx_run_asr sample_heap ?g (Some sample_session) ?mel 1 560 None 1000 = Inr r
      \<and> run_ret r = - 2147483648 \<and> g_error_msg (run_globals r) = []"
    using onnx_run_asr_after_run [OF 1 2 3 4 5 6, of sample_heap None 1000] e2
    by (simp add: fault_bind_simps sample_globals_def)
  have cast_max: "int_of_size 2147483648 \<le> 2147483647" using cast by simp
  have over_max: "memcpy (replicate 2147483647 (0::nat)) 0 (replicate 2147483648 3) 0
                (2147483648 * sizeof_float) = Inl OutOfBounds"
    using count by (simp add: memcpy_def Let_def)
  have e3: "asr_extract sample_heap ?api ?g ?out (Some (replicate 2147483647 0)) 2147483647
              = Inl OutOfBounds"
    using size cast_max over_max ok by (simp add: asr_extract_def Let_def fault_bind_simps)
  have r3: "onnx_run_asr sample_heap ?g (Some sample_session) ?mel 1 560
              (Some (replicate 2147483647 0)) 2147483647 = Inl OutOfBounds"
    using onnx_run_asr_after_run
            [OF 1 2 3 4 5 6, of sample_heap "Some (replicate 2147483647 0)" 2147483647] e3
    by (simp add: fault_bind_simps)
  show ?thesis using r1 r2 r3 by blast
qed

section \<open>onnx_destroy_session\<close>

lemma free_names_loop_eq:
  "\<forall>i\<in>set idx. i < length names \<Longrightarrow>
   free_names_loop alloc mk names idx tr = Inr (tr @ name_frees alloc mk names idx)"
  by (induction idx arbitrary: tr) (simp_all add: name_frees_def split: option.splits)

lemma name_frees_events:
  "(\<And>i. name_event (AllocatorFree (mk i))) \<Longrightarrow> \<forall>e\<in>set (name_frees alloc mk names idx). name_event e"
  by (auto simp: name_frees_def split: option.splits)

lemma free_names_eq:
  assumes "\<forall>ns. names = Some ns \<longrightarrow> n \<le> length ns"
  shows "free_names alloc mk arr names n =
     Inr (case names of None \<Rightarrow> []
          | Some ns \<Rightarrow> name_frees alloc mk ns [0..<n] @ [Free arr])"
proof (cases names)
  case None
  then show ?thesis by (simp add: free_names_def)
next
  case (Some ns)
  then have "\<forall>i\<in>set [0..<n]. i < length ns" using assms by auto
  then show ?thesis
    using Some by (simp add: free_names_def free_names_loop_eq fault_bind_simps)
qed

lemma precedes_append_left:
  "a \<notin> set xs \<Longrightarrow> precedes a b (xs @ ys) = precedes a b ys"
  by (induction xs) auto

text \<open>
  C3, amended. For every session whose name arrays hold the \<open>num_inputs\<close> and
  \<open>num_outputs\<close> entries the loops visit, \<open>onnx_destroy_session\<close> completes without a
  fault. Its log begins with the events of the names only (each non-null name string freed
  through the runtime's allocator when the allocator is set, each name array with
  \<open>free\<close>), then releases the graph (session) object, then the execution-configuration
  (session-options) object, then frees the session structure. A field that is unset is
  skipped, and a \<open>NULL\<close> handle does nothing. The graph object goes before the options
  object, never after it.
\<close>

theorem onnx_destroy_session_release_order:
  assumes "\<forall>ns. input_names s = Some ns \<longrightarrow> num_inputs s \<le> length ns"
    and "\<forall>ns. output_names s = Some ns \<longrightarrow> num_outputs s \<le> length ns"
  shows "onnx_destroy_session g None = Inr []
      \<and> (\<exists>names_log. 
            onnx_destroy_session g (Some s) =
              Inr (names_log
                   @ (case (session s, g_ort g) of (Some _, Some _) \<Rightarrow> [Released SessionObj] | _ \<Rightarrow> [])
                   @ (case (options s, g_ort g) of (Some _, Some _) \<Rightarrow> [Released OptionsObj] | _ \<Rightarrow> [])
                   @ [Free SessionStruct])
          \<and> (\<forall>e\<in>set names_log. name_event e)
          \<and> names_log =
               (case input_names s of None \<Rightarrow> []
                | Some ns \<Rightarrow> name_frees (allocator s) InputName ns [0..<num_inputs s]
                             @ [Free InputNameArray])
               @ (case output_names s of None \<Rightarrow> []
                  | Some ns \<Rightarrow> name_frees (allocator s) OutputName ns [0..<num_outputs s]
                               @ [Free OutputNameArray]))
      \<and> (\<forall>tr. onnx_destroy_session g (Some s) = Inr tr \<longrightarrow>
            session s \<noteq> None \<longrightarrow> options s \<noteq> None \<longrightarrow> g_ort g \<noteq> None \<longrightarrow>
            precedes (Released SessionObj) (Released OptionsObj) tr
            \<and> \<not> precedes (Released OptionsObj) (Released SessionObj) tr)"
proof -
  let ?in = "case input_names s of None \<Rightarrow> []
             | Some ns \<Rightarrow> name_frees (allocator s) InputName ns [0..<num_inputs s]
                          @ [Free InputNameArray]"
  let ?out = "case output_names s of None \<Rightarrow> []
              | Some ns \<Rightarrow> name_frees (allocator s) OutputName ns [0..<num_outputs s]
                           @ [Free OutputNameArray]"
  let ?S = "case (session s, g_ort g) of (Some _, Some _) \<Rightarrow> [Released SessionObj] | _ \<Rightarrow> []"
  let ?O = "case (options s, g_ort g) of (Some _, Some _) \<Rightarrow> [Released OptionsObj] | _ \<Rightarrow> []"
  have null: "onnx_destroy_session g None = Inr []" by (simp add: onnx_destroy_session_def)
  have fi: "free_names (allocator s) InputName InputNameArray (input_names s) (num_inputs s) = Inr ?in"
    using assms(1) by (rule free_names_eq)
  have fo: "free_names (allocator s) OutputName OutputNameArray (output_names s) (num_outputs s) = Inr ?out"
    using assms(2) by (rule free_names_eq)
  have res: "onnx_destroy_session g (Some s) = Inr ((?in @ ?out) @ ?S @ ?O @ [Free SessionStruct])"
    using fi fo by (simp add: onnx_destroy_session_def fault_bind_simps)
  have ev_in: "\<forall>e\<in>set ?in. name_event e"
    using name_frees_events [of InputName "allocator s"]
    by (auto simp: name_event_def split: option.splits)
  have ev_out: "\<forall>e\<in>set ?out. name_event e"
    using name_frees_events [of OutputName "allocator s"]
    by (auto simp: name_event_def split: option.splits)
  have ev: "\<forall>e\<in>set (?in @ ?out). name_event e" using ev_in ev_out by auto
  have order: "precedes (Released SessionObj) (Released OptionsObj) tr
            \<and> \<not> precedes (Released OptionsObj) (Released SessionObj) tr"
    if tr: "onnx_destroy_session g (Some s) = Inr tr"
      and set: "session s \<noteq> None" "options s \<noteq> None" "g_ort g \<noteq> None" for tr
  proof -
    have tr_eq: "tr = (?in @ ?out) @ [Released SessionObj, Released OptionsObj, Free SessionStruct]"
      using tr res set by auto
    have "\<not> name_event (Released SessionObj)" "\<not> name_event (Released OptionsObj)"
      by (simp_all add: name_event_def)
    then have "Released SessionObj \<notin> set (?in @ ?out)" "Released OptionsObj \<notin> set (?in @ ?out)"
      using ev by blast+
    then show ?thesis unfolding tr_eq by (simp add: precedes_append_left)
  qed
  show ?thesis using null res ev order by blast
qed

theorem onnx_destroy_session_release_order_witness:
  "onnx_destroy_session (sample_globals (sample_api create_ok (echo_run (0::nat))))
     (Some sample_session)
     = Inr [AllocatorFree (InputName 0), Free InputNameArray,
            AllocatorFree (OutputName 0), Free OutputNameArray,
            Released SessionObj, Released OptionsObj, Free SessionStruct]
   \<and> precedes (Released SessionObj) (Released OptionsObj)
        [AllocatorFree (InputName 0), Free InputNameArray,
         AllocatorFree (OutputName 0), Free OutputNameArray,
         Released SessionObj, Released OptionsObj, Free SessionStruct]"
proof -
  let ?g = "sample_globals (sample_api create_ok (echo_run (0::nat)))"
  let ?tr = "[AllocatorFree (InputName 0), Free InputNameArray,
         AllocatorFree (OutputName 0), Free OutputNameArray,
         Released SessionObj, Released OptionsObj, Free SessionStruct]"
  have 1: "\<forall>ns. input_names sample_session = Some ns \<longrightarrow> num_inputs sample_session \<le> length ns"
    and 2: "\<forall>ns. output_names sample_session = Some ns \<longrightarrow> num_outputs sample_session \<le> length ns"
    by (simp_all add: sample_session_def)
  have v: "onnx_destroy_session ?g (Some sample_session) = Inr ?tr"
    by (simp add: onnx_destroy_session_def free_names_def fault_bind_simps sample_session_def
        sample_globals_def)
  have s: "session sample_session \<noteq> None" "options sample_session \<noteq> None" "g_ort ?g \<noteq> None"
    by (simp_all add: sample_session_def sample_globals_def)
  from onnx_destroy_session_release_order [OF 1 2, of ?g] v s
  show ?thesis by blast
qed

text \<open>
  C3 as stated puts the execution-configuration object before the graph object. On a
  fully populated session the log shows the opposite order.
\<close>

theorem onnx_destroy_session_options_not_before_session:
  "onnx_destroy_session (sample_globals (sample_api create_ok (echo_run (0::nat))))
     (Some sample_session)
     = Inr [AllocatorFree (InputName 0), Free InputNameArray,
            AllocatorFree (OutputName 0), Free OutputNameArray,
            Released SessionObj, Released OptionsObj, Free SessionStruct]
   \<and> \<not> precedes (Released OptionsObj) (Released SessionObj)
        [AllocatorFree (InputName 0), Free InputNameArray,
         AllocatorFree (OutputName 0), Free OutputNameArray,
         Released SessionObj, Released OptionsObj, Free SessionStruct]"
  by (simp add: onnx_destroy_session_def free_names_def fault_bind_simps sample_session_def
      sample_globals_def)

end
